theory Spec2Isabelle
  imports Main
begin

section \<open>JavaScript values\<close>

text \<open>
  The services handle untyped JSON (\<^verbatim>\<open>any\<close>).  A value is one of the JSON
  forms or \<^verbatim>\<open>undefined\<close>.  An object is the list of its own properties, in
  order; a property is read with \<open>map_of\<close>.  Numbers are only ever tested for
  truthiness and compared with HTTP status codes, so they are integers here.
\<close>

datatype json =
    JUndefined
  | JNull
  | JBool bool
  | JNum int
  | JStr string
  | JArr "json list"
  | JObj "(string \<times> json) list"

text \<open>Truthiness, as \<^verbatim>\<open>if (v)\<close>, \<^verbatim>\<open>!v\<close> and \<^verbatim>\<open>v || d\<close> test it.\<close>

fun truthy :: "json \<Rightarrow> bool" where
  "truthy JUndefined = False"
| "truthy JNull = False"
| "truthy (JBool b) = b"
| "truthy (JNum n) = (n \<noteq> 0)"
| "truthy (JStr s) = (s \<noteq> [])"
| "truthy (JArr xs) = True"
| "truthy (JObj kvs) = True"

text \<open>\<^verbatim>\<open>v === undefined || v === null\<close>.\<close>

fun nullish :: "json \<Rightarrow> bool" where
  "nullish JUndefined = True"
| "nullish JNull = True"
| "nullish v = False"

text \<open>\<^verbatim>\<open>a || b\<close> and \<^verbatim>\<open>a ?? b\<close> on values.\<close>

definition js_or :: "json \<Rightarrow> json \<Rightarrow> json" where
  "js_or a b = (if truthy a then a else b)"

definition js_coalesce :: "json \<Rightarrow> json \<Rightarrow> json" where
  "js_coalesce a b = (if nullish a then b else a)"

text \<open>
  \<^verbatim>\<open>obj[key]\<close> on a value that is neither \<^verbatim>\<open>undefined\<close> nor \<^verbatim>\<open>null\<close>: the own
  property of an object, \<^verbatim>\<open>undefined\<close> when there is none and on a primitive or
  an array (none of the keys the services read is a built-in property).
\<close>

fun rd :: "json \<Rightarrow> string \<Rightarrow> json" where
  "rd (JObj kvs) k = (case map_of kvs k of Some v \<Rightarrow> v | None \<Rightarrow> JUndefined)"
| "rd v k = JUndefined"

text \<open>Optional strings in a template literal: \<^verbatim>\<open>`${x}`\<close> prints \<^verbatim>\<open>undefined\<close>.\<close>

fun tmpl :: "string option \<Rightarrow> string" where
  "tmpl None = ''undefined''"
| "tmpl (Some s) = s"

text \<open>Truthiness of an optional string (\<^verbatim>\<open>string | undefined\<close>).\<close>

fun truthy_str :: "string option \<Rightarrow> bool" where
  "truthy_str None = False"
| "truthy_str (Some s) = (s \<noteq> [])"

section \<open>Errors\<close>

datatype axios_response = AxiosResponse (status: nat) (rdata: json)

text \<open>
  An \<^verbatim>\<open>Error\<close> object: an axios error (\<^verbatim>\<open>axios.isAxiosError\<close> holds) with its
  optional response and error code, or any other error.  A thrown value is
  such an object, or \<^verbatim>\<open>undefined\<close>, which \<^verbatim>\<open>throw lastError!\<close> throws when
  nothing was assigned.
\<close>

datatype js_error =
    AxiosError (response: "axios_response option") (code: "string option") (emessage: string)
  | OtherError (emessage: string)

datatype thrown = Thrown js_error | ThrownUndefined

definition TypeError :: thrown where
  "TypeError = Thrown (OtherError ''TypeError'')"

text \<open>\<^verbatim>\<open>obj[key]\<close> on any value: reading a property of \<^verbatim>\<open>undefined\<close> or \<^verbatim>\<open>null\<close> throws.\<close>

definition get_prop :: "json \<Rightarrow> string \<Rightarrow> thrown + json" where
  "get_prop obj k = (if nullish obj then Inl TypeError else Inr (rd obj k))"

section \<open>Configuration\<close>

record global_config =
  timeout :: nat
  userAgent :: string
  retryAttempts :: nat
  retryDelay :: nat

record form_data_config =
  fd_baseUrl :: string
  fd_hash :: string
  fd_cacheTtl :: nat
  fd_cachePrefix :: string

text \<open>
  The admit-card section has no \<^verbatim>\<open>hash\<close> in the configuration file; the GET
  variant of the service reads \<^verbatim>\<open>this.config.hash\<close> all the same, so the field
  is optional here.
\<close>

record admit_card_config =
  ac_baseUrl :: string
  ac_theory :: string
  ac_practical :: string
  ac_hash :: "string option"
  ac_cacheTtl :: nat
  ac_cachePrefix :: string

record api_config =
  formData :: form_data_config
  admitCard :: admit_card_config
  global :: global_config

definition BsebApiConfig :: api_config where
  "BsebApiConfig = \<lparr>
     formData = \<lparr>
       fd_baseUrl = ''https://examapi.biharboardonline.org/export/app'',
       fd_hash = ''a591a6d40bf420404a011733cfb7b190d62c6'',
       fd_cacheTtl = 86400,
       fd_cachePrefix = ''bseb:form'' \<rparr>,
     admitCard = \<lparr>
       ac_baseUrl = ''http://115.243.18.52:8081/api/BsebInter'',
       ac_theory = ''GetAdmitCardTheory'',
       ac_practical = ''GetAdmitCardPractical'',
       ac_hash = None,
       ac_cacheTtl = 3600,
       ac_cachePrefix = ''bseb:admitcard'' \<rparr>,
     global = \<lparr>
       timeout = 30000,
       userAgent = ''BSEBConnect/1.0'',
       retryAttempts = 2,
       retryDelay = 1000 \<rparr> \<rparr>"

section \<open>The world outside: cache store, upstream, clock\<close>

text \<open>
  A text held by the cache store is either one that \<^verbatim>\<open>JSON.parse\<close> reads (it
  stands for the value read) or one that it rejects.
\<close>

datatype redis_text = JsonText json | BadText string

fun truthy_text :: "redis_text \<Rightarrow> bool" where
  "truthy_text (JsonText j) = True"
| "truthy_text (BadText s) = (s \<noteq> [])"

fun JSON_parse :: "redis_text \<Rightarrow> thrown + json" where
  "JSON_parse (JsonText j) = Inr j"
| "JSON_parse (BadText s) = Inl (Thrown (OtherError ''SyntaxError''))"

record axios_config =
  ax_timeout :: nat
  ax_headers :: "(string \<times> string) list"

datatype http_request =
    HttpGet string axios_config
  | HttpPost string json axios_config

datatype event =
    RedisGet string
  | RedisSet string redis_text nat
  | RedisDelete string
  | Http http_request
  | Sleep nat

text \<open>
  \<open>store\<close> is the content of the cache store (text and time to live per key);
  \<open>get_fails\<close>, \<open>set_fails\<close> and \<open>delete_fails\<close> say for which keys the store's
  operation throws, and what; \<open>upstream k req\<close> is the outcome of the request
  \<open>req\<close> when it is the \<open>k\<close>-th one sent; \<open>sent\<close> counts the requests sent;
  \<open>trace\<close> lists every call made to the store, to the upstream and to the
  timer, in order; \<open>clock\<close> is what \<^verbatim>\<open>new Date().toISOString()\<close> returns.
\<close>

record world =
  store :: "string \<Rightarrow> (redis_text \<times> nat) option"
  get_fails :: "string \<Rightarrow> js_error option"
  set_fails :: "string \<Rightarrow> js_error option"
  delete_fails :: "string \<Rightarrow> js_error option"
  upstream :: "nat \<Rightarrow> http_request \<Rightarrow> js_error + axios_response"
  sent :: nat
  trace :: "event list"
  clock :: string

type_synonym 'a io = "world \<Rightarrow> (thrown + 'a) \<times> world"

definition io_return :: "'a \<Rightarrow> 'a io" where
  "io_return x = (\<lambda>w. (Inr x, w))"

definition io_throw :: "thrown \<Rightarrow> 'a io" where
  "io_throw e = (\<lambda>w. (Inl e, w))"

definition io_lift :: "thrown + 'a \<Rightarrow> 'a io" where
  "io_lift r = (\<lambda>w. (r, w))"

definition io_bind :: "'a io \<Rightarrow> ('a \<Rightarrow> 'b io) \<Rightarrow> 'b io" where
  "io_bind m f = (\<lambda>w. case m w of (Inl e, w') \<Rightarrow> (Inl e, w') | (Inr x, w') \<Rightarrow> f x w')"

text \<open>\<^verbatim>\<open>try { m } catch (error) { h(error) }\<close>.\<close>

definition io_catch :: "'a io \<Rightarrow> (thrown \<Rightarrow> 'a io) \<Rightarrow> 'a io" where
  "io_catch m h = (\<lambda>w. case m w of (Inl e, w') \<Rightarrow> h e w' | (Inr x, w') \<Rightarrow> (Inr x, w'))"

text \<open>\<^verbatim>\<open>error.message\<close>, evaluated for a log line: it throws on \<^verbatim>\<open>undefined\<close>.\<close>

fun error_message :: "thrown \<Rightarrow> thrown + string" where
  "error_message (Thrown e) = Inr (emessage e)"
| "error_message ThrownUndefined = Inl TypeError"

text \<open>The cache store's three operations (\<^verbatim>\<open>RedisService\<close>).\<close>

definition redis_get :: "string \<Rightarrow> redis_text option io" where
  "redis_get k = (\<lambda>w.
     (case get_fails w k of
        Some e \<Rightarrow> Inl (Thrown e)
      | None \<Rightarrow> Inr (map_option fst (store w k)),
      w\<lparr>trace := trace w @ [RedisGet k]\<rparr>))"

definition redis_set :: "string \<Rightarrow> redis_text \<Rightarrow> nat \<Rightarrow> unit io" where
  "redis_set k v ttl = (\<lambda>w.
     (case set_fails w k of
        Some e \<Rightarrow> (Inl (Thrown e), w\<lparr>trace := trace w @ [RedisSet k v ttl]\<rparr>)
      | None \<Rightarrow> (Inr (), w\<lparr>store := (store w)(k \<mapsto> (v, ttl)),
                            trace := trace w @ [RedisSet k v ttl]\<rparr>)))"

definition redis_delete :: "string \<Rightarrow> unit io" where
  "redis_delete k = (\<lambda>w.
     (case delete_fails w k of
        Some e \<Rightarrow> (Inl (Thrown e), w\<lparr>trace := trace w @ [RedisDelete k]\<rparr>)
      | None \<Rightarrow> (Inr (), w\<lparr>store := (store w)(k := None),
                            trace := trace w @ [RedisDelete k]\<rparr>)))"

text \<open>\<^verbatim>\<open>axios.get\<close> and \<^verbatim>\<open>axios.post\<close>: one request sent to the upstream.\<close>

definition axios_request :: "http_request \<Rightarrow> axios_response io" where
  "axios_request req = (\<lambda>w.
     (case upstream w (sent w) req of
        Inl e \<Rightarrow> Inl (Thrown e)
      | Inr r \<Rightarrow> Inr r,
      w\<lparr>sent := Suc (sent w), trace := trace w @ [Http req]\<rparr>))"

definition delay :: "nat \<Rightarrow> world \<Rightarrow> world" where
  "delay ms w = w\<lparr>trace := trace w @ [Sleep ms]\<rparr>"

section \<open>BsebBaseService\<close>

text \<open>
  \<^verbatim>\<open>axios.isAxiosError(error)\<close> with \<^verbatim>\<open>error.response?.status\<close> in \<open>[400, 500)\<close>:
  the test that ends the retry loop at once.
\<close>

fun is_client_error :: "thrown \<Rightarrow> bool" where
  "is_client_error (Thrown (AxiosError (Some r) c m)) = (400 \<le> status r \<and> status r < 500)"
| "is_client_error e = False"

text \<open>
  The loop of \<^verbatim>\<open>executeWithRetry\<close>, from \<open>attempt\<close> on, with \<open>lastError\<close> as it
  stands.  Logger calls write to the console only and are left out.
\<close>

function executeWithRetry_loop ::
  "api_config \<Rightarrow> axios_response io \<Rightarrow> nat \<Rightarrow> nat \<Rightarrow> thrown \<Rightarrow> json io" where
  "executeWithRetry_loop cfg requestFn retries attempt lastError w =
     (if attempt \<le> retries then
        (case requestFn w of
           (Inr resp, w1) \<Rightarrow> (Inr (rdata resp), w1)
         | (Inl error, w1) \<Rightarrow>
             if is_client_error error then (Inl error, w1)
             else executeWithRetry_loop cfg requestFn retries (Suc attempt) error
                    (if attempt < retries
                     then delay (retryDelay (global cfg) * (attempt + 1)) w1
                     else w1))
      else (Inl lastError, w))"
  by pat_completeness auto
termination
  by (relation "measure (\<lambda>(cfg, requestFn, retries, attempt, lastError, w). Suc retries - attempt)")
     auto

definition executeWithRetry :: "api_config \<Rightarrow> axios_response io \<Rightarrow> nat \<Rightarrow> json io" where
  "executeWithRetry cfg requestFn retries =
     executeWithRetry_loop cfg requestFn retries 0 ThrownUndefined"

declare executeWithRetry_loop.simps [simp del]

text \<open>
  \<^verbatim>\<open>httpGet\<close> and \<^verbatim>\<open>httpPost\<close>.  No caller passes the optional \<^verbatim>\<open>config\<close>
  argument, so the request carries the default configuration.
\<close>

definition httpGet :: "api_config \<Rightarrow> string \<Rightarrow> json io" where
  "httpGet cfg url =
     (let defaultConfig = \<lparr>
            ax_timeout = timeout (global cfg),
            ax_headers = [(''Accept'', ''application/json''),
                          (''User-Agent'', userAgent (global cfg))] \<rparr>
      in executeWithRetry cfg (axios_request (HttpGet url defaultConfig))
           (retryAttempts (global cfg)))"

definition httpPost :: "api_config \<Rightarrow> string \<Rightarrow> json \<Rightarrow> json io" where
  "httpPost cfg url body =
     (let defaultConfig = \<lparr>
            ax_timeout = timeout (global cfg),
            ax_headers = [(''Content-Type'', ''application/json''),
                          (''Accept'', ''application/json''),
                          (''User-Agent'', userAgent (global cfg))] \<rparr>
      in executeWithRetry cfg (axios_request (HttpPost url body defaultConfig))
           (retryAttempts (global cfg)))"

text \<open>
  \<^verbatim>\<open>JSON.stringify\<close> of a value, as the value \<^verbatim>\<open>JSON.parse\<close> reads back: a
  property holding \<^verbatim>\<open>undefined\<close> is dropped, \<^verbatim>\<open>undefined\<close> in an array
  becomes \<^verbatim>\<open>null\<close>.  The services only ever pass an object.
\<close>

fun stringify_value :: "json \<Rightarrow> json" where
  "stringify_value (JObj kvs) =
     JObj (map (\<lambda>(k, v). (k, stringify_value v)) (filter (\<lambda>(k, v). v \<noteq> JUndefined) kvs))"
| "stringify_value (JArr xs) =
     JArr (map (\<lambda>v. if v = JUndefined then JNull else stringify_value v) xs)"
| "stringify_value v = v"

definition JSON_stringify :: "json \<Rightarrow> redis_text" where
  "JSON_stringify v = JsonText (stringify_value v)"

text \<open>
  \<^verbatim>\<open>getFromCache\<close>: the \<^verbatim>\<open>try\<close> block either returns the parsed value or falls
  through; the \<^verbatim>\<open>catch\<close> block evaluates \<^verbatim>\<open>error.message\<close> for the warning and
  falls through; after both, \<^verbatim>\<open>null\<close> is returned.
\<close>

definition getFromCache :: "string \<Rightarrow> json io" where
  "getFromCache cacheKey =
     io_bind
       (io_catch
          (io_bind (redis_get cacheKey) (\<lambda>cached.
             case cached of
               Some text \<Rightarrow>
                 if truthy_text text
                 then io_bind (io_lift (JSON_parse text)) (\<lambda>v. io_return (Some v))
                 else io_return None
             | None \<Rightarrow> io_return None))
          (\<lambda>error. io_bind (io_lift (error_message error)) (\<lambda>_. io_return None)))
       (\<lambda>returned. io_return (case returned of Some v \<Rightarrow> v | None \<Rightarrow> JNull))"

definition setInCache :: "string \<Rightarrow> json \<Rightarrow> nat \<Rightarrow> unit io" where
  "setInCache cacheKey d ttlSeconds =
     io_catch (redis_set cacheKey (JSON_stringify d) ttlSeconds)
       (\<lambda>error. io_bind (io_lift (error_message error)) (\<lambda>_. io_return ()))"

definition deleteFromCache :: "string \<Rightarrow> unit io" where
  "deleteFromCache cacheKey =
     io_catch (redis_delete cacheKey)
       (\<lambda>error. io_bind (io_lift (error_message error)) (\<lambda>_. io_return ()))"

fun deleteFromCache_each :: "string list \<Rightarrow> unit io" where
  "deleteFromCache_each [] = io_return ()"
| "deleteFromCache_each (key # keys) =
     io_bind (deleteFromCache key) (\<lambda>_. deleteFromCache_each keys)"

definition deleteCacheByPrefix :: "string \<Rightarrow> string \<Rightarrow> unit io" where
  "deleteCacheByPrefix prefix identifier =
     (let patterns = [
            prefix @ '':'' @ identifier,
            prefix @ '':theory:'' @ identifier,
            prefix @ '':practical:'' @ identifier]
      in deleteFromCache_each patterns)"

text \<open>
  The response envelope (\<^verbatim>\<open>BsebBaseResponse\<close>, and \<^verbatim>\<open>BsebErrorResponse\<close> which is
  cast to it).  A field that the object literal does not set is \<open>None\<close>.  The
  message is whatever value the upstream sent when that value is truthy.
\<close>

record envelope =
  success :: bool
  data :: "json option"
  message :: "json option"
  cached :: "bool option"
  timestamp :: "string option"
  errorCode :: "string option"

definition error_response :: "json \<Rightarrow> string \<Rightarrow> string \<Rightarrow> envelope" where
  "error_response msg c ts =
     \<lparr>success = False, data = None, message = Some msg, cached = None,
      timestamp = Some ts, errorCode = Some c\<rparr>"

text \<open>\<^verbatim>\<open>responseData?.message\<close>.\<close>

definition opt_message :: "json \<Rightarrow> json" where
  "opt_message responseData =
     (if nullish responseData then JUndefined else rd responseData ''message'')"

fun handleApiError :: "thrown \<Rightarrow> string \<Rightarrow> string \<Rightarrow> envelope io" where
  "handleApiError (Thrown (AxiosError (Some resp) c m)) context identifier w =
     (let timestamp = clock w; responseData = rdata resp in
      if status resp = 404 then
        (Inr (error_response
               (js_or (opt_message responseData) (JStr ''No record found for the given details.''))
               ''NOT_FOUND'' timestamp), w)
      else if status resp = 400 then
        (Inr (error_response
               (js_or (opt_message responseData) (JStr ''Invalid request parameters.''))
               ''BAD_REQUEST'' timestamp), w)
      else if status resp = 401 \<or> status resp = 403 then
        (Inr (error_response (JStr ''Access denied to BSEB services.'')
               ''UNAUTHORIZED'' timestamp), w)
      else if status resp \<ge> 500 then
        (Inr (error_response (JStr ''BSEB server error. Please try again later.'')
               ''SERVER_ERROR'' timestamp), w)
      else
        (Inr (error_response
               (js_or (opt_message responseData) (JStr (''Failed to fetch '' @ context @ ''.'')))
               ''API_ERROR'' timestamp), w))"
| "handleApiError (Thrown (AxiosError None c m)) context identifier w =
     (let timestamp = clock w in
      if c = Some ''ECONNABORTED'' then
        (Inr (error_response (JStr ''Request timed out. Please try again.'')
               ''TIMEOUT'' timestamp), w)
      else if c = Some ''ENOTFOUND'' \<or> c = Some ''ECONNREFUSED'' then
        (Inr (error_response
               (JStr ''BSEB server is currently unavailable. Please try again later.'')
               ''UNAVAILABLE'' timestamp), w)
      else
        (Inr (error_response (JStr ''An unexpected error occurred. Please try again.'')
               ''UNKNOWN_ERROR'' timestamp), w))"
| "handleApiError (Thrown (OtherError m)) context identifier w =
     (Inr (error_response (JStr ''An unexpected error occurred. Please try again.'')
            ''UNKNOWN_ERROR'' (clock w)), w)"
| "handleApiError ThrownUndefined context identifier w = (Inl TypeError, w)"

definition createSuccessResponse :: "json \<Rightarrow> bool \<Rightarrow> envelope io" where
  "createSuccessResponse d c = (\<lambda>w.
     (Inr \<lparr>success = True, data = Some d, message = None, cached = Some c,
           timestamp = Some (clock w), errorCode = None\<rparr>, w))"

fun getFieldValue :: "json \<Rightarrow> string list \<Rightarrow> thrown + json" where
  "getFieldValue obj [] = Inr JUndefined"
| "getFieldValue obj (key # keys) =
     (if nullish obj then Inl TypeError
      else if rd obj key \<noteq> JUndefined \<and> rd obj key \<noteq> JNull then Inr (rd obj key)
      else getFieldValue obj keys)"

section \<open>Object literals whose fields may throw\<close>

text \<open>
  An object literal evaluates its fields in order; the first one that throws
  ends the evaluation.  \<^verbatim>\<open>Array.prototype.map\<close> does the same with its callback.
\<close>

fun build_object :: "(string \<times> (thrown + json)) list \<Rightarrow> thrown + json" where
  "build_object [] = Inr (JObj [])"
| "build_object ((k, Inl e) # fs) = Inl e"
| "build_object ((k, Inr v) # fs) =
     (case build_object fs of
        Inr (JObj kvs) \<Rightarrow> Inr (JObj ((k, v) # kvs))
      | r \<Rightarrow> r)"

fun array_map :: "(json \<Rightarrow> thrown + json) \<Rightarrow> json list \<Rightarrow> thrown + json list" where
  "array_map f [] = Inr []"
| "array_map f (x # xs) =
     (case f x of
        Inl e \<Rightarrow> Inl e
      | Inr y \<Rightarrow> (case array_map f xs of Inl e \<Rightarrow> Inl e | Inr ys \<Rightarrow> Inr (y # ys)))"

section \<open>FormDataService\<close>

definition transformAddress :: "json \<Rightarrow> json" where
  "transformAddress rawAddress =
     (if \<not> truthy rawAddress then JUndefined
      else JObj [
        (''city'', rd rawAddress ''city''),
        (''address'', rd rawAddress ''address''),
        (''pincode'', rd rawAddress ''pincode''),
        (''district'', rd rawAddress ''district''),
        (''state'', rd rawAddress ''state'')])"

definition transformSubject :: "json \<Rightarrow> json" where
  "transformSubject rawSubject =
     (if \<not> truthy rawSubject then JUndefined
      else JObj [
        (''name'', rd rawSubject ''name''),
        (''code'', rd rawSubject ''code''),
        (''isChecked'', js_coalesce (rd rawSubject ''is_checked'') (JBool False)),
        (''readonly'', js_coalesce (rd rawSubject ''readonly'') (JBool True))])"

definition transformSubjects :: "json \<Rightarrow> json" where
  "transformSubjects rawSubjects =
     (if \<not> truthy rawSubjects then JUndefined
      else JObj [
        (''mil'', transformSubject (rd rawSubjects ''mil'')),
        (''sil'', transformSubject (rd rawSubjects ''sil'')),
        (''optional'', transformSubject (rd rawSubjects ''optional'')),
        (''vocational'', transformSubject (rd rawSubjects ''vocational'')),
        (''compulsory1'', transformSubject (rd rawSubjects ''compulsory_1'')),
        (''compulsory2'', transformSubject (rd rawSubjects ''compulsory_2'')),
        (''compulsory3'', transformSubject (rd rawSubjects ''compulsory_3'')),
        (''compulsory4'', transformSubject (rd rawSubjects ''compulsory_4''))])"

text \<open>
  \<^verbatim>\<open>FormDataService.transformResponse\<close>.  The first property read throws when
  \<open>raw\<close> is \<^verbatim>\<open>undefined\<close> or \<^verbatim>\<open>null\<close>; after it none can.
\<close>

definition fd_transformResponse :: "json \<Rightarrow> thrown + json" where
  "fd_transformResponse raw =
     (if nullish raw then Inl TypeError
      else Inr (JObj [
        (''schoolCode'', rd raw ''school_code''),
        (''schoolName'', rd raw ''school_name''),
        (''registrationNumber'', rd raw ''reg_no''),
        (''applicationNumber'', rd raw ''application_no''),
        (''name'', rd raw ''name''),
        (''fatherName'', rd raw ''father_name''),
        (''motherName'', rd raw ''mother_name''),
        (''dateOfBirth'', rd raw ''dob''),
        (''gender'', rd raw ''gender''),
        (''caste'', rd raw ''caste''),
        (''category'', rd raw ''category''),
        (''religion'', rd raw ''religion''),
        (''nationality'', rd raw ''nationality''),
        (''area'', rd raw ''area''),
        (''isDifferentlyAbled'', rd raw ''is_differently_abled''),
        (''isVisuallyImpaired'', rd raw ''is_visually_impaired''),
        (''maritalStatus'', rd raw ''marital_status''),
        (''medium'', rd raw ''medium''),
        (''mobile'', rd raw ''mobile''),
        (''email'', rd raw ''email''),
        (''address'', transformAddress (rd raw ''address'')),
        (''subjects'', transformSubjects (rd raw ''subjects'')),
        (''photoUrl'', rd raw ''photo''),
        (''signatureUrl'', rd raw ''sign''),
        (''rawData'', raw)]))"

text \<open>The envelope of an upstream that answered without success or without data.\<close>

definition upstream_failure :: "json \<Rightarrow> envelope" where
  "upstream_failure apiResponse =
     \<lparr>success = False, data = None,
      message = Some (js_or (rd apiResponse ''message'') (JStr ''No data returned from BSEB API'')),
      cached = None, timestamp = None, errorCode = None\<rparr>"

definition getFormData :: "api_config \<Rightarrow> string \<Rightarrow> envelope io" where
  "getFormData cfg registrationNumber =
     (let config = formData cfg;
          cacheKey = fd_cachePrefix config @ '':'' @ registrationNumber
      in io_catch
           (io_bind (getFromCache cacheKey) (\<lambda>cachedData.
              if truthy cachedData then createSuccessResponse cachedData True
              else
                let url = fd_baseUrl config @ ''/'' @ registrationNumber
                            @ ''?hash='' @ fd_hash config
                in io_bind (httpGet cfg url) (\<lambda>apiResponse.
                   io_bind (io_lift (get_prop apiResponse ''success'')) (\<lambda>ok.
                     if \<not> truthy ok \<or> \<not> truthy (rd apiResponse ''data'')
                     then io_return (upstream_failure apiResponse)
                     else
                       io_bind (io_lift (fd_transformResponse (rd apiResponse ''data'')))
                         (\<lambda>transformed.
                       io_bind (setInCache cacheKey transformed (fd_cacheTtl config)) (\<lambda>_.
                       createSuccessResponse transformed False))))))
           (\<lambda>error. handleApiError error ''form-data'' registrationNumber))"

definition fd_clearCache :: "api_config \<Rightarrow> string \<Rightarrow> unit io" where
  "fd_clearCache cfg registrationNumber =
     deleteFromCache (fd_cachePrefix (formData cfg) @ '':'' @ registrationNumber)"

section \<open>AdmitCardService\<close>

datatype AdmitCardType = THEORY | PRACTICAL

fun type_name :: "AdmitCardType \<Rightarrow> string" where
  "type_name THEORY = ''theory''"
| "type_name PRACTICAL = ''practical''"

record GetAdmitCardRequestDto =
  registrationNumber :: "string option"
  rollCode :: "string option"
  rollNumber :: "string option"

text \<open>\<^verbatim>\<open>x || ''\<close> on an optional string.\<close>

fun or_empty :: "string option \<Rightarrow> string" where
  "or_empty None = []"
| "or_empty (Some s) = s"

definition getIdentifier :: "GetAdmitCardRequestDto \<Rightarrow> string" where
  "getIdentifier dto =
     (if truthy_str (registrationNumber dto) then tmpl (registrationNumber dto)
      else tmpl (rollCode dto) @ ''-'' @ tmpl (rollNumber dto))"

subsection \<open>The variant that posts to the admit-card endpoints\<close>

definition ac_transformSubject :: "json \<Rightarrow> thrown + json" where
  "ac_transformSubject s = build_object [
     (''subjectName'', getFieldValue s [''SubjectName'', ''subjectName'']),
     (''subjectCode'', getFieldValue s [''SubjectCode'', ''subjectCode'']),
     (''subjectGroup'', getFieldValue s [''SubjectGroup'', ''subjectGroup'']),
     (''examDate'', getFieldValue s [''ExamDate'', ''examDate'']),
     (''examTime'', getFieldValue s [''ExamTime'', ''examTime'']),
     (''examShift'', getFieldValue s [''ExamShift'', ''examShift''])]"

definition ac_transformResponse :: "json \<Rightarrow> thrown + json" where
  "ac_transformResponse rawData =
     (if nullish rawData then Inl TypeError
      else
        let studentDetails =
              js_or (js_or (rd rawData ''StudentDetails'') (rd rawData ''studentDetails''))
                (JObj []);
            subjectDetails =
              js_or (js_or (rd rawData ''SubjectDetails'') (rd rawData ''subjectDetails''))
                (JArr [])
        in build_object [
          (''studentDetails'', build_object [
             (''studentName'', getFieldValue studentDetails [''StudentName'', ''studentName'']),
             (''fatherName'', getFieldValue studentDetails [''FatherName'', ''fatherName'']),
             (''motherName'', getFieldValue studentDetails [''MotherName'', ''motherName'']),
             (''dateOfBirth'', getFieldValue studentDetails [''DateOfBirth'', ''dateOfBirth'']),
             (''gender'', getFieldValue studentDetails [''Gender'', ''gender'']),
             (''registrationNumber'',
                getFieldValue studentDetails [''RegistrationNumber'', ''registrationNumber'']),
             (''rollCode'',
                getFieldValue studentDetails [''Rollcode'', ''RollCode'', ''rollcode'', ''rollCode'']),
             (''rollNumber'', getFieldValue studentDetails [''RollNumber'', ''rollNumber'']),
             (''schoolName'', getFieldValue studentDetails [''SchoolName'', ''schoolName'']),
             (''schoolCode'', getFieldValue studentDetails [''SchoolCode'', ''schoolCode'']),
             (''casteCategory'',
                getFieldValue studentDetails [''casteCategory'', ''CasteCategory'']),
             (''religion'', getFieldValue studentDetails [''Religion'', ''religion'']),
             (''examType'', getFieldValue studentDetails [''ExamType'', ''examType'']),
             (''examCenterName'',
                getFieldValue studentDetails [''ExamCenterName'', ''examCenterName'']),
             (''examCenterCode'',
                getFieldValue studentDetails [''ExamCenterCode'', ''examCenterCode''])]),
          (''subjectDetails'',
             (case subjectDetails of
                JArr xs \<Rightarrow> map_sum id JArr (array_map ac_transformSubject xs)
              | _ \<Rightarrow> Inr (JArr [])))])"

definition getAdmitCard :: "api_config \<Rightarrow> GetAdmitCardRequestDto \<Rightarrow> AdmitCardType \<Rightarrow> envelope io" where
  "getAdmitCard cfg dto type =
     (let config = admitCard cfg;
          identifier = getIdentifier dto;
          cacheKey = ac_cachePrefix config @ '':'' @ type_name type @ '':'' @ identifier
      in io_catch
           (io_bind (getFromCache cacheKey) (\<lambda>cachedData.
              if truthy cachedData then createSuccessResponse cachedData True
              else
                let endpoint = (if type = THEORY then ac_theory config else ac_practical config);
                    url = ac_baseUrl config @ ''/'' @ endpoint;
                    requestBody = JObj [
                      (''registrationNumber'', JStr (or_empty (registrationNumber dto))),
                      (''rollCode'', JStr (or_empty (rollCode dto))),
                      (''rollNumber'', JStr (or_empty (rollNumber dto)))]
                in io_bind (httpPost cfg url requestBody) (\<lambda>rawData.
                   io_bind (io_lift (ac_transformResponse rawData)) (\<lambda>admitCardData.
                   io_bind (setInCache cacheKey admitCardData (ac_cacheTtl config)) (\<lambda>_.
                   createSuccessResponse admitCardData False)))))
           (\<lambda>error. handleApiError error (type_name type @ ''-admit-card'') identifier))"

definition getTheoryAdmitCard :: "api_config \<Rightarrow> GetAdmitCardRequestDto \<Rightarrow> envelope io" where
  "getTheoryAdmitCard cfg dto = getAdmitCard cfg dto THEORY"

definition getPracticalAdmitCard :: "api_config \<Rightarrow> GetAdmitCardRequestDto \<Rightarrow> envelope io" where
  "getPracticalAdmitCard cfg dto = getAdmitCard cfg dto PRACTICAL"

definition ac_clearCache :: "api_config \<Rightarrow> string \<Rightarrow> unit io" where
  "ac_clearCache cfg identifier = deleteCacheByPrefix (ac_cachePrefix (admitCard cfg)) identifier"

subsection \<open>The variant that reads the form-data endpoint with GET\<close>

text \<open>\<^verbatim>\<open>key.replace('_', ' ')\<close>: the first occurrence only.\<close>

fun replace_first :: "char \<Rightarrow> char \<Rightarrow> string \<Rightarrow> string" where
  "replace_first a b [] = []"
| "replace_first a b (c # cs) = (if c = a then b # cs else c # replace_first a b cs)"

definition subjectKeys :: "string list" where
  "subjectKeys = [''mil'', ''sil'', ''compulsory_1'', ''compulsory_2'', ''compulsory_3'',
                  ''compulsory_4'', ''optional'', ''vocational'']"

text \<open>The loop that fills \<^verbatim>\<open>subjectList\<close>, one key after the other.\<close>

fun push_subjects :: "json \<Rightarrow> string list \<Rightarrow> json list \<Rightarrow> json list" where
  "push_subjects subjects [] subjectList = subjectList"
| "push_subjects subjects (key # keys) subjectList =
     push_subjects subjects keys
       (if truthy (rd subjects key) \<and> truthy (rd (rd subjects key) ''name'')
        then subjectList @ [JObj [
               (''subjectName'', rd (rd subjects key) ''name''),
               (''subjectCode'', js_or (rd (rd subjects key) ''code'') (JStr [])),
               (''subjectGroup'', JStr (replace_first (CHR ''_'') (CHR '' '') key)),
               (''examDate'', JStr []),
               (''examTime'', JStr []),
               (''examShift'', JStr [])]]
        else subjectList)"

definition acg_transformResponse :: "json \<Rightarrow> AdmitCardType \<Rightarrow> thrown + json" where
  "acg_transformResponse rawData type =
     (if nullish rawData then Inl TypeError
      else
        let subjects = js_or (rd rawData ''subjects'') (JObj []);
            subjectList = push_subjects subjects subjectKeys []
        in Inr (JObj [
          (''studentDetails'', JObj [
             (''studentName'', js_or (rd rawData ''name'') (JStr [])),
             (''fatherName'', js_or (rd rawData ''father_name'') (JStr [])),
             (''motherName'', js_or (rd rawData ''mother_name'') (JStr [])),
             (''dateOfBirth'', js_or (rd rawData ''dob'') (JStr [])),
             (''gender'', js_or (rd rawData ''gender'') (JStr [])),
             (''registrationNumber'', js_or (rd rawData ''reg_no'') (JStr [])),
             (''rollCode'', js_or (rd rawData ''roll_code'') (JStr [])),
             (''rollNumber'', js_or (rd rawData ''roll_no'') (JStr [])),
             (''schoolName'', js_or (rd rawData ''school_name'') (JStr [])),
             (''schoolCode'', js_or (rd rawData ''school_code'') (JStr [])),
             (''casteCategory'', js_or (rd rawData ''category'') (JStr [])),
             (''religion'', js_or (rd rawData ''religion'') (JStr [])),
             (''examType'', JStr (if type = THEORY then ''Theory'' else ''Practical'')),
             (''examCenterName'',
                js_or (js_or (rd rawData ''exam_center_name'') (rd rawData ''school_name''))
                  (JStr [])),
             (''examCenterCode'',
                js_or (js_or (rd rawData ''exam_center_code'') (rd rawData ''school_code''))
                  (JStr []))]),
          (''subjectDetails'', JArr subjectList),
          (''photoUrl'', js_or (rd rawData ''photo'') (JStr []))]))"

definition getAdmitCard_get ::
  "api_config \<Rightarrow> GetAdmitCardRequestDto \<Rightarrow> AdmitCardType \<Rightarrow> envelope io" where
  "getAdmitCard_get cfg dto type =
     (if \<not> truthy_str (registrationNumber dto) then
        io_return \<lparr>success = False, data = None,
                   message = Some (JStr ''Registration number is required''),
                   cached = None, timestamp = None, errorCode = None\<rparr>
      else
        let config = admitCard cfg;
            identifier = tmpl (registrationNumber dto);
            cacheKey = ac_cachePrefix config @ '':'' @ type_name type @ '':'' @ identifier
        in io_catch
             (io_bind (getFromCache cacheKey) (\<lambda>cachedData.
                if truthy cachedData then createSuccessResponse cachedData True
                else
                  let url = ac_baseUrl config @ ''/'' @ identifier
                              @ ''?hash='' @ tmpl (ac_hash config)
                  in io_bind (httpGet cfg url) (\<lambda>apiResponse.
                     io_bind (io_lift (get_prop apiResponse ''success'')) (\<lambda>ok.
                       if \<not> truthy ok \<or> \<not> truthy (rd apiResponse ''data'')
                       then io_return (upstream_failure apiResponse)
                       else
                         io_bind (io_lift (acg_transformResponse (rd apiResponse ''data'') type))
                           (\<lambda>admitCardData.
                         io_bind (setInCache cacheKey admitCardData (ac_cacheTtl config)) (\<lambda>_.
                         createSuccessResponse admitCardData False))))))
             (\<lambda>error. handleApiError error (type_name type @ ''-admit-card'') identifier))"

section \<open>Notions used to state the properties\<close>

text \<open>
  A transient failure: an HTTP status of 500 or more, or a failure without
  any HTTP response (a timeout, another network error, any other error).
\<close>

fun transient :: "js_error \<Rightarrow> bool" where
  "transient (AxiosError (Some r) c m) = (500 \<le> status r)"
| "transient (AxiosError None c m) = True"
| "transient (OtherError m) = True"

text \<open>
  What a run of attempts \<open>a, \<dots>, retries\<close> that all fail leaves in the trace: the
  request of each attempt, followed by the wait unless the attempt is the last.
\<close>

definition attempts_trace :: "api_config \<Rightarrow> http_request \<Rightarrow> nat \<Rightarrow> nat \<Rightarrow> event list" where
  "attempts_trace cfg req retries a =
     concat (map (\<lambda>k. Http req #
                       (if k < retries then [Sleep (retryDelay (global cfg) * (k + 1))] else []))
                 [a..<Suc retries])"

fun sleeps :: "event list \<Rightarrow> nat list" where
  "sleeps [] = []"
| "sleeps (Sleep ms # es) = ms # sleeps es"
| "sleeps (e # es) = sleeps es"

fun http_requests :: "event list \<Rightarrow> http_request list" where
  "http_requests [] = []"
| "http_requests (Http r # es) = r # http_requests es"
| "http_requests (e # es) = http_requests es"

fun is_cache_call :: "event \<Rightarrow> bool" where
  "is_cache_call (RedisGet k) = True"
| "is_cache_call (RedisSet k v t) = True"
| "is_cache_call (RedisDelete k) = True"
| "is_cache_call e = False"

fun is_cache_write :: "event \<Rightarrow> bool" where
  "is_cache_write (RedisSet k v t) = True"
| "is_cache_write (RedisDelete k) = True"
| "is_cache_write e = False"

text \<open>The mapping table of the error normalizer, row by row, first match wins.\<close>

datatype error_code =
  NOT_FOUND | BAD_REQUEST | UNAUTHORIZED | SERVER_ERROR | API_ERROR | TIMEOUT | UNAVAILABLE
  | UNKNOWN_ERROR

fun code_name :: "error_code \<Rightarrow> string" where
  "code_name NOT_FOUND = ''NOT_FOUND''"
| "code_name BAD_REQUEST = ''BAD_REQUEST''"
| "code_name UNAUTHORIZED = ''UNAUTHORIZED''"
| "code_name SERVER_ERROR = ''SERVER_ERROR''"
| "code_name API_ERROR = ''API_ERROR''"
| "code_name TIMEOUT = ''TIMEOUT''"
| "code_name UNAVAILABLE = ''UNAVAILABLE''"
| "code_name UNKNOWN_ERROR = ''UNKNOWN_ERROR''"

fun http_status :: "js_error \<Rightarrow> nat option" where
  "http_status (AxiosError (Some r) c m) = Some (status r)"
| "http_status e = None"

fun network_code :: "js_error \<Rightarrow> string option" where
  "network_code (AxiosError r c m) = c"
| "network_code (OtherError m) = None"

text \<open>
  The conditions of the table's two network rows, by the error codes under
  which Node and axios report them: a connection timeout is \<^verbatim>\<open>ECONNABORTED\<close>
  (axios gave the request up after its own timeout) or \<^verbatim>\<open>ETIMEDOUT\<close> (the
  connection attempt timed out); a DNS failure is \<^verbatim>\<open>ENOTFOUND\<close> or \<^verbatim>\<open>EAI_AGAIN\<close>;
  a refused connection is \<^verbatim>\<open>ECONNREFUSED\<close>.
\<close>

definition connection_timeout :: "js_error \<Rightarrow> bool" where
  "connection_timeout e =
     (network_code e = Some ''ECONNABORTED'' \<or> network_code e = Some ''ETIMEDOUT'')"

definition dns_failure :: "js_error \<Rightarrow> bool" where
  "dns_failure e = (network_code e = Some ''ENOTFOUND'' \<or> network_code e = Some ''EAI_AGAIN'')"

definition connection_refused :: "js_error \<Rightarrow> bool" where
  "connection_refused e = (network_code e = Some ''ECONNREFUSED'')"

text \<open>The table as the specification words it.\<close>

definition mapping_table :: "((js_error \<Rightarrow> bool) \<times> error_code) list" where
  "mapping_table = [
     (\<lambda>e. http_status e = Some 404, NOT_FOUND),
     (\<lambda>e. http_status e = Some 400, BAD_REQUEST),
     (\<lambda>e. http_status e = Some 401 \<or> http_status e = Some 403, UNAUTHORIZED),
     (\<lambda>e. case http_status e of Some s \<Rightarrow> 500 \<le> s | None \<Rightarrow> False, SERVER_ERROR),
     (\<lambda>e. http_status e \<noteq> None, API_ERROR),
     (connection_timeout, TIMEOUT),
     (\<lambda>e. dns_failure e \<or> connection_refused e, UNAVAILABLE),
     (\<lambda>e. True, UNKNOWN_ERROR)]"

text \<open>
  The table with the two network rows narrowed to the three codes that
  \<^verbatim>\<open>handleApiError\<close> compares with.
\<close>

definition handled_table :: "((js_error \<Rightarrow> bool) \<times> error_code) list" where
  "handled_table = [
     (\<lambda>e. http_status e = Some 404, NOT_FOUND),
     (\<lambda>e. http_status e = Some 400, BAD_REQUEST),
     (\<lambda>e. http_status e = Some 401 \<or> http_status e = Some 403, UNAUTHORIZED),
     (\<lambda>e. case http_status e of Some s \<Rightarrow> 500 \<le> s | None \<Rightarrow> False, SERVER_ERROR),
     (\<lambda>e. http_status e \<noteq> None, API_ERROR),
     (\<lambda>e. network_code e = Some ''ECONNABORTED'', TIMEOUT),
     (\<lambda>e. network_code e = Some ''ENOTFOUND'' \<or> network_code e = Some ''ECONNREFUSED'',
        UNAVAILABLE),
     (\<lambda>e. True, UNKNOWN_ERROR)]"

fun first_match :: "((js_error \<Rightarrow> bool) \<times> error_code) list \<Rightarrow> js_error \<Rightarrow> error_code option" where
  "first_match [] e = None"
| "first_match ((cond, c) # rows) e = (if cond e then Some c else first_match rows e)"

section \<open>Example worlds\<close>

text \<open>An empty cache store that works, and an upstream that answers every request with 503.\<close>

definition failing_world :: world where
  "failing_world = \<lparr>
     store = (\<lambda>k. None),
     get_fails = (\<lambda>k. None),
     set_fails = (\<lambda>k. None),
     delete_fails = (\<lambda>k. None),
     upstream = (\<lambda>n req.
       Inl (AxiosError (Some (AxiosResponse 503 JNull)) None ''Service Unavailable'')),
     sent = 0,
     trace = [],
     clock = ''2025-01-01T00:00:00.000Z'' \<rparr>"

text \<open>The same with an upstream that answers every request with 404.\<close>

definition not_found_world :: world where
  "not_found_world = failing_world\<lparr>
     upstream := (\<lambda>n req. Inl (AxiosError (Some (AxiosResponse 404 JNull)) None ''Not Found''))\<rparr>"

definition example_request :: http_request where
  "example_request =
     HttpGet ''https://examapi.biharboardonline.org/export/app/91341-00009-24?hash=a591a6d40bf420404a011733cfb7b190d62c6''
       \<lparr>ax_timeout = 30000,
        ax_headers = [(''Accept'', ''application/json''), (''User-Agent'', ''BSEBConnect/1.0'')]\<rparr>"

section \<open>What a call leaves behind\<close>

text \<open>
  What the cache store holds for a key, as a value: \<^verbatim>\<open>null\<close> when the read
  throws, when there is no entry, when the text is empty or when it does not
  parse.
\<close>

definition cache_read :: "world \<Rightarrow> string \<Rightarrow> json" where
  "cache_read w k =
     (case get_fails w k of
        Some e \<Rightarrow> JNull
      | None \<Rightarrow>
          (case store w k of
             None \<Rightarrow> JNull
           | Some (text, ttl) \<Rightarrow>
               if truthy_text text
               then (case JSON_parse text of Inr v \<Rightarrow> v | Inl e \<Rightarrow> JNull)
               else JNull))"

text \<open>The worlds that a read, a write and a delete of the cache store leave.\<close>

definition after_get :: "string \<Rightarrow> world \<Rightarrow> world" where
  "after_get k w = w\<lparr>trace := trace w @ [RedisGet k]\<rparr>"

text \<open>
  Between two worlds only requests were sent upstream and waits made: the
  cache store, the clock and the scripted behaviour are the same, and the new
  part of the trace holds no call to the cache store.
\<close>

definition only_upstream :: "world \<Rightarrow> world \<Rightarrow> bool" where
  "only_upstream w w' =
     (store w' = store w \<and> get_fails w' = get_fails w \<and> set_fails w' = set_fails w
      \<and> delete_fails w' = delete_fails w \<and> upstream w' = upstream w \<and> clock w' = clock w
      \<and> sent w \<le> sent w'
      \<and> (\<exists>evs. trace w' = trace w @ evs \<and> filter is_cache_call evs = []))"

definition after_set :: "string \<Rightarrow> json \<Rightarrow> nat \<Rightarrow> world \<Rightarrow> world" where
  "after_set k d ttl w =
     (case set_fails w k of
        Some e \<Rightarrow> w\<lparr>trace := trace w @ [RedisSet k (JSON_stringify d) ttl]\<rparr>
      | None \<Rightarrow> w\<lparr>store := (store w)(k \<mapsto> (JSON_stringify d, ttl)),
                   trace := trace w @ [RedisSet k (JSON_stringify d) ttl]\<rparr>)"

definition after_delete :: "string \<Rightarrow> world \<Rightarrow> world" where
  "after_delete k w =
     (case delete_fails w k of
        Some e \<Rightarrow> w\<lparr>trace := trace w @ [RedisDelete k]\<rparr>
      | None \<Rightarrow> w\<lparr>store := (store w)(k := None), trace := trace w @ [RedisDelete k]\<rparr>)"

text \<open>The cache keys, addresses and request body that the services build.\<close>

definition fd_key :: "api_config \<Rightarrow> string \<Rightarrow> string" where
  "fd_key cfg reg = fd_cachePrefix (formData cfg) @ '':'' @ reg"

definition fd_url :: "api_config \<Rightarrow> string \<Rightarrow> string" where
  "fd_url cfg reg =
     fd_baseUrl (formData cfg) @ ''/'' @ reg @ ''?hash='' @ fd_hash (formData cfg)"

definition ac_key :: "api_config \<Rightarrow> AdmitCardType \<Rightarrow> string \<Rightarrow> string" where
  "ac_key cfg type identifier =
     ac_cachePrefix (admitCard cfg) @ '':'' @ type_name type @ '':'' @ identifier"

definition ac_url :: "api_config \<Rightarrow> AdmitCardType \<Rightarrow> string" where
  "ac_url cfg type =
     ac_baseUrl (admitCard cfg) @ ''/'' @
       (if type = THEORY then ac_theory (admitCard cfg) else ac_practical (admitCard cfg))"

definition ac_body :: "GetAdmitCardRequestDto \<Rightarrow> json" where
  "ac_body dto = JObj [
     (''registrationNumber'', JStr (or_empty (registrationNumber dto))),
     (''rollCode'', JStr (or_empty (rollCode dto))),
     (''rollNumber'', JStr (or_empty (rollNumber dto)))]"






text \<open>
  The value of the first listed key whose value is neither \<^verbatim>\<open>undefined\<close> nor
  \<^verbatim>\<open>null\<close>; \<^verbatim>\<open>undefined\<close> when no key has one.
\<close>

definition first_defined :: "json \<Rightarrow> string list \<Rightarrow> json" where
  "first_defined obj keys =
     (case find (\<lambda>k. rd obj k \<noteq> JUndefined \<and> rd obj k \<noteq> JNull) keys of
        Some k \<Rightarrow> rd obj k
      | None \<Rightarrow> JUndefined)"

text \<open>A record keeps the raw payload when one of its fields holds it.\<close>

definition keeps_raw :: "json \<Rightarrow> json \<Rightarrow> bool" where
  "keeps_raw out raw = (case out of JObj kvs \<Rightarrow> raw \<in> set (map snd kvs) | _ \<Rightarrow> False)"

section \<open>Example requests, payloads and worlds\<close>

definition request_without_identifier :: GetAdmitCardRequestDto where
  "request_without_identifier = \<lparr>registrationNumber = None, rollCode = None, rollNumber = None\<rparr>"

definition request_with_roll :: GetAdmitCardRequestDto where
  "request_with_roll =
     \<lparr>registrationNumber = None, rollCode = Some ''71100'', rollNumber = Some ''123456789''\<rparr>"

definition refusing_world :: world where
  "refusing_world = failing_world\<lparr>
     upstream := (\<lambda>n req.
       Inr (AxiosResponse 200 (JObj [(''success'', JBool False), (''message'', JStr ''x'')])))\<rparr>"

definition broken_cache_world :: world where
  "broken_cache_world = failing_world\<lparr>
     get_fails := (\<lambda>k. Some (OtherError ''ECONNREFUSED'')),
     set_fails := (\<lambda>k. Some (OtherError ''ECONNREFUSED'')),
     delete_fails := (\<lambda>k. Some (OtherError ''ECONNREFUSED'')),
     upstream := (\<lambda>n req.
       Inr (AxiosResponse 200
              (JObj [(''success'', JBool True),
                     (''data'', JObj [(''reg_no'', JStr ''91341-00009-24''),
                                      (''name'', JStr ''A'')])])))\<rparr>"

definition two_casings :: json where
  "two_casings = JObj [(''StudentName'', JStr ''A''), (''studentName'', JStr ''B'')]"

definition admit_raw_example :: json where
  "admit_raw_example = JObj [
     (''StudentDetails'', two_casings),
     (''Remarks'', JStr ''fee paid'')]"

definition admit_raw_stripped :: json where
  "admit_raw_stripped = JObj [(''StudentDetails'', two_casings)]"

definition form_raw_example :: json where
  "form_raw_example = JObj [
     (''reg_no'', JStr ''91341-00009-24''),
     (''name'', JStr ''A''),
     (''remarks'', JStr ''fee paid'')]"

definition form_raw_stripped :: json where
  "form_raw_stripped = JObj [
     (''reg_no'', JStr ''91341-00009-24''),
     (''name'', JStr ''A'')]"


text \<open>Network errors without a response, and an upstream that answers 200 with the body \<^verbatim>\<open>null\<close>.\<close>

definition request_timed_out :: js_error where
  "request_timed_out = AxiosError None (Some ''ECONNABORTED'') ''timeout of 30000ms exceeded''"

definition connect_timed_out :: js_error where
  "connect_timed_out = AxiosError None (Some ''ETIMEDOUT'') ''connect ETIMEDOUT 115.243.18.52:8081''"

definition dns_try_again :: js_error where
  "dns_try_again =
     AxiosError None (Some ''EAI_AGAIN'') ''getaddrinfo EAI_AGAIN examapi.biharboardonline.org''"

definition null_body_world :: world where
  "null_body_world = failing_world\<lparr>upstream := (\<lambda>n req. Inr (AxiosResponse 200 JNull))\<rparr>"

section \<open>Properties of the retry policy\<close>

lemma transient_not_client: "transient e \<Longrightarrow> \<not> is_client_error (Thrown e)"
  by (cases e rule: transient.cases) auto

lemma attempts_trace_last: "attempts_trace cfg req retries retries = [Http req]"
  by (simp add: attempts_trace_def)

lemma attempts_trace_step:
  "a < retries \<Longrightarrow> attempts_trace cfg req retries a =
     [Http req, Sleep (retryDelay (global cfg) * (a + 1))] @ attempts_trace cfg req retries (Suc a)"
  by (simp add: attempts_trace_def upt_conv_Cons)

lemma http_requests_attempts:
  "a \<le> retries \<Longrightarrow> http_requests (attempts_trace cfg req retries a) = replicate (Suc retries - a) req"
proof (induction "retries - a" arbitrary: a)
  case 0
  then show ?case by (simp add: attempts_trace_last)
next
  case (Suc d)
  then have lt: "a < retries" and d: "d = retries - Suc a" by auto
  from Suc.hyps(1)[OF d] lt show ?case
    by (simp add: attempts_trace_step Suc_diff_le)
qed

lemma sleeps_attempts:
  "a \<le> retries \<Longrightarrow> sleeps (attempts_trace cfg req retries a) =
     map (\<lambda>n. retryDelay (global cfg) * n) [Suc a..<Suc retries]"
proof (induction "retries - a" arbitrary: a)
  case 0
  then show ?case by (simp add: attempts_trace_last)
next
  case (Suc d)
  then have lt: "a < retries" and d: "d = retries - Suc a" by auto
  have "[Suc a..<Suc retries] = Suc a # [Suc (Suc a)..<Suc retries]"
    using lt by (simp add: upt_conv_Cons)
  with Suc.hyps(1)[OF d] lt show ?case
    by (simp add: attempts_trace_step)
qed

lemma increasing_delays:
  "0 < d \<Longrightarrow> sorted_wrt (<) (map (\<lambda>n. d * n) [Suc a..<Suc retries])"
proof -
  assume d: "0 < d"
  have "sorted_wrt (<) [Suc a..<Suc retries]" by (rule sorted_wrt_upt)
  then have "sorted_wrt (\<lambda>x y. d * x < d * y) [Suc a..<Suc retries]"
    by (rule sorted_wrt_mono_rel[rotated]) (simp add: d)
  then show ?thesis by (simp add: sorted_wrt_map)
qed

lemma loop_all_transient:
  assumes "\<And>k. k \<le> retries - a \<Longrightarrow> \<exists>e. upstream w (sent w + k) req = Inl e \<and> transient e"
    and "a \<le> retries"
  shows "\<exists>e. upstream w (sent w + (retries - a)) req = Inl e \<and>
     executeWithRetry_loop cfg (axios_request req) retries a lastError w =
       (Inl (Thrown e),
        w\<lparr>sent := sent w + (retries - a) + 1,
          trace := trace w @ attempts_trace cfg req retries a\<rparr>)"
  using assms
proof (induction "retries - a" arbitrary: a w lastError)
  case 0
  then have eq: "a = retries" by simp
  from "0.prems"(1)[of 0] obtain e where e: "upstream w (sent w) req = Inl e" "transient e" by auto
  show ?case using e eq transient_not_client[OF e(2)]
    by (subst executeWithRetry_loop.simps)
       (simp add: axios_request_def attempts_trace_def executeWithRetry_loop.simps[of _ _ retries "Suc retries"])
next
  case (Suc d)
  then have lt: "a < retries" and d: "d = retries - Suc a" by auto
  from Suc.prems(1)[of 0] obtain e where e: "upstream w (sent w) req = Inl e" "transient e" by auto
  define w1 where "w1 = delay (retryDelay (global cfg) * (a + 1))
      (w\<lparr>sent := Suc (sent w), trace := trace w @ [Http req]\<rparr>)"
  have step: "executeWithRetry_loop cfg (axios_request req) retries a lastError w =
        executeWithRetry_loop cfg (axios_request req) retries (Suc a) (Thrown e) w1"
    using e lt transient_not_client[OF e(2)] unfolding w1_def
    by (subst executeWithRetry_loop.simps) (simp add: axios_request_def)
  have up: "upstream w1 = upstream w" "sent w1 = Suc (sent w)"
    "trace w1 = trace w @ [Http req, Sleep (retryDelay (global cfg) * (a + 1))]"
    by (simp_all add: w1_def delay_def)
  have later: "\<exists>e. upstream w1 (sent w1 + k) req = Inl e \<and> transient e"
    if "k \<le> retries - Suc a" for k
  proof -
    from that have "Suc k \<le> retries - a" using lt by simp
    from Suc.prems(1)[OF this] show ?thesis by (simp add: up)
  qed
  from Suc.hyps(1)[OF d later, of "Thrown e"] lt
  obtain e' where e': "upstream w1 (sent w1 + (retries - Suc a)) req = Inl e'"
     "executeWithRetry_loop cfg (axios_request req) retries (Suc a) (Thrown e) w1 =
       (Inl (Thrown e'),
        w1\<lparr>sent := sent w1 + (retries - Suc a) + 1,
          trace := trace w1 @ attempts_trace cfg req retries (Suc a)\<rparr>)" by auto
  have idx: "sent w + (retries - a) = sent w1 + (retries - Suc a)" using lt by (simp add: up)
  have fin: "w1\<lparr>sent := sent w1 + (retries - Suc a) + 1,
          trace := trace w1 @ attempts_trace cfg req retries (Suc a)\<rparr> =
        w\<lparr>sent := sent w + (retries - a) + 1,
          trace := trace w @ attempts_trace cfg req retries a\<rparr>"
    unfolding attempts_trace_step[OF lt] idx by (simp add: w1_def delay_def)
  have "upstream w (sent w + (retries - a)) req = Inl e'"
    using e'(1) by (simp only: idx up)
  moreover have "executeWithRetry_loop cfg (axios_request req) retries a lastError w =
       (Inl (Thrown e'),
        w\<lparr>sent := sent w + (retries - a) + 1,
          trace := trace w @ attempts_trace cfg req retries a\<rparr>)"
    by (simp only: step e'(2) fin)
  ultimately show ?case by blast
qed

text \<open>
  C1.  When every attempt of the request fails with a transient error,
  \<^verbatim>\<open>executeWithRetry\<close> sends the request \<open>retries + 1\<close> times, waits
  \<open>retryDelay \<times> n\<close> after the \<open>n\<close>-th attempt (\<open>n = 1, \<dots>, retries\<close>; strictly
  increasing when the delay is positive) and throws the error of the last
  attempt, unchanged.
\<close>

theorem executeWithRetry_transient:
  assumes "\<forall>k\<le>retries. \<exists>e. upstream w (sent w + k) req = Inl e \<and> transient e"
  shows "\<exists>e evs. executeWithRetry cfg (axios_request req) retries w =
             (Inl (Thrown e), w\<lparr>sent := sent w + (retries + 1), trace := trace w @ evs\<rparr>)
         \<and> upstream w (sent w + retries) req = Inl e
         \<and> evs = attempts_trace cfg req retries 0
         \<and> http_requests evs = replicate (retries + 1) req
         \<and> sleeps evs = map (\<lambda>n. retryDelay (global cfg) * n) [1..<retries + 1]
         \<and> (0 < retryDelay (global cfg) \<longrightarrow> sorted_wrt (<) (sleeps evs))"
proof -
  have "\<exists>e. upstream w (sent w + (retries - 0)) req = Inl e \<and>
     executeWithRetry_loop cfg (axios_request req) retries 0 ThrownUndefined w =
       (Inl (Thrown e),
        w\<lparr>sent := sent w + (retries - 0) + 1,
          trace := trace w @ attempts_trace cfg req retries 0\<rparr>)"
    by (rule loop_all_transient) (use assms in simp_all)
  then obtain e where e: "upstream w (sent w + retries) req = Inl e"
    "executeWithRetry cfg (axios_request req) retries w =
       (Inl (Thrown e),
        w\<lparr>sent := sent w + (retries + 1), trace := trace w @ attempts_trace cfg req retries 0\<rparr>)"
    by (auto simp: executeWithRetry_def)
  have h: "http_requests (attempts_trace cfg req retries 0) = replicate (retries + 1) req"
    using http_requests_attempts[of 0 retries cfg req] by simp
  have s: "sleeps (attempts_trace cfg req retries 0) =
      map (\<lambda>n. retryDelay (global cfg) * n) [1..<retries + 1]"
    using sleeps_attempts[of 0 retries cfg req] by simp
  have i: "0 < retryDelay (global cfg) \<longrightarrow> sorted_wrt (<) (sleeps (attempts_trace cfg req retries 0))"
    unfolding s using increasing_delays[of "retryDelay (global cfg)" 0 retries] by simp
  show ?thesis
    by (rule exI[of _ e], rule exI[of _ "attempts_trace cfg req retries 0"])
       (intro conjI e h s i refl)
qed

theorem executeWithRetry_transient_witness:
  "executeWithRetry BsebApiConfig (axios_request example_request) 2 failing_world =
     (Inl (Thrown (AxiosError (Some (AxiosResponse 503 JNull)) None ''Service Unavailable'')),
      failing_world\<lparr>sent := 3,
        trace := [Http example_request, Sleep 1000, Http example_request, Sleep 2000,
                  Http example_request]\<rparr>)"
proof -
  have h: "\<forall>k\<le>2. \<exists>e. upstream failing_world (sent failing_world + k) example_request = Inl e
              \<and> transient e"
    by (simp add: failing_world_def)
  have u: "[0..<3] = [0, 1, 2::nat]" by (simp add: upt_conv_Cons)
  from executeWithRetry_transient[OF h, of BsebApiConfig] show ?thesis
    by (auto simp: failing_world_def BsebApiConfig_def attempts_trace_def numeral_3_eq_3 u)
qed

lemma executeWithRetry_stops_on_4xx:
  assumes "upstream w (sent w) req = Inl (AxiosError (Some r) c m)"
    and "400 \<le> status r" and "status r < 500"
  shows "executeWithRetry cfg (axios_request req) retries w =
           (Inl (Thrown (AxiosError (Some r) c m)),
            w\<lparr>sent := Suc (sent w), trace := trace w @ [Http req]\<rparr>)"
  using assms unfolding executeWithRetry_def
  by (subst executeWithRetry_loop.simps) (simp add: axios_request_def)

text \<open>
  C2.  When the request fails with an HTTP status in \<open>[400, 500)\<close>,
  \<^verbatim>\<open>executeWithRetry\<close> sends it once, does not wait, and throws that error.
\<close>

theorem executeWithRetry_client_error:
  assumes "upstream w (sent w) req = Inl (AxiosError (Some r) c m)"
    and "400 \<le> status r" and "status r < 500"
  shows "executeWithRetry cfg (axios_request req) retries w =
           (Inl (Thrown (AxiosError (Some r) c m)),
            w\<lparr>sent := Suc (sent w), trace := trace w @ [Http req]\<rparr>)"
proof -
  from assms(1) have first: "axios_request req w =
      (Inl (Thrown (AxiosError (Some r) c m)),
       w\<lparr>sent := Suc (sent w), trace := trace w @ [Http req]\<rparr>)"
    by (simp add: axios_request_def)
  show ?thesis
    unfolding executeWithRetry_def
    by (subst executeWithRetry_loop.simps) (simp add: first assms(2,3))
qed

theorem executeWithRetry_client_error_witness:
  "upstream not_found_world (sent not_found_world) example_request =
     Inl (AxiosError (Some (AxiosResponse 404 JNull)) None ''Not Found'')
   \<and> 400 \<le> status (AxiosResponse 404 JNull) \<and> status (AxiosResponse 404 JNull) < 500
   \<and> executeWithRetry BsebApiConfig (axios_request example_request) 2 not_found_world =
       (Inl (Thrown (AxiosError (Some (AxiosResponse 404 JNull)) None ''Not Found'')),
        not_found_world\<lparr>sent := 1, trace := [Http example_request]\<rparr>)"
  using executeWithRetry_client_error
          [of not_found_world example_request "AxiosResponse 404 JNull" None "''Not Found''"
              BsebApiConfig 2]
  by (simp add: not_found_world_def failing_world_def)

section \<open>Properties of the error normalizer\<close>

text \<open>
  C3, as amended.  For every error object, \<^verbatim>\<open>handleApiError\<close> returns the code
  of the first matching row of the table whose network rows are: an axios
  error without response and with code \<^verbatim>\<open>ECONNABORTED\<close> gives \<^verbatim>\<open>TIMEOUT\<close>, with
  code \<^verbatim>\<open>ENOTFOUND\<close> or \<^verbatim>\<open>ECONNREFUSED\<close> gives \<^verbatim>\<open>UNAVAILABLE\<close>; the HTTP rows and
  the last row are those of the specification.  The code is one of the eight
  of the taxonomy, and it is the code of the specification's table for every
  error that carries an HTTP status or whose code is neither \<^verbatim>\<open>ETIMEDOUT\<close> nor
  \<^verbatim>\<open>EAI_AGAIN\<close>.
\<close>

theorem handleApiError_table:
  "\<exists>env c. handleApiError (Thrown e) context identifier w = (Inr env, w)
      \<and> first_match handled_table e = Some c
      \<and> errorCode env = Some (code_name c)
      \<and> \<not> success env
      \<and> (http_status e \<noteq> None
           \<or> (network_code e \<noteq> Some ''ETIMEDOUT'' \<and> network_code e \<noteq> Some ''EAI_AGAIN'')
          \<longrightarrow> first_match mapping_table e = Some c)"
proof (cases e)
  case (AxiosError r c m)
  show ?thesis
  proof (cases r)
    case None
    with AxiosError show ?thesis
      by (simp add: handled_table_def mapping_table_def connection_timeout_def dns_failure_def
          connection_refused_def error_response_def Let_def)
  next
    case (Some resp)
    with AxiosError show ?thesis
      by (simp add: handled_table_def mapping_table_def error_response_def Let_def)
  qed
next
  case (OtherError m)
  then show ?thesis
    by (simp add: handled_table_def mapping_table_def connection_timeout_def dns_failure_def
        connection_refused_def error_response_def)
qed

theorem handleApiError_table_witness:
  "handleApiError (Thrown request_timed_out) ''form-data'' ''91341-00009-24'' failing_world =
     (Inr \<lparr>success = False, data = None,
            message = Some (JStr ''Request timed out. Please try again.''),
            cached = None, timestamp = Some ''2025-01-01T00:00:00.000Z'',
            errorCode = Some ''TIMEOUT''\<rparr>, failing_world)
   \<and> first_match mapping_table request_timed_out = Some TIMEOUT
   \<and> first_match handled_table request_timed_out = Some TIMEOUT"
proof -
  have n: "network_code request_timed_out \<noteq> Some ''ETIMEDOUT''
      \<and> network_code request_timed_out \<noteq> Some ''EAI_AGAIN''"
    by (simp add: request_timed_out_def)
  have t: "first_match handled_table request_timed_out = Some TIMEOUT"
    by (simp add: handled_table_def request_timed_out_def)
  from handleApiError_table[of request_timed_out "''form-data''" "''91341-00009-24''" failing_world]
    n t
  have "first_match mapping_table request_timed_out = Some TIMEOUT" by auto
  with t show ?thesis
    by (simp add: request_timed_out_def error_response_def failing_world_def)
qed

text \<open>
  C3 as stated fails on the network rows: a connection attempt that timed
  out (\<^verbatim>\<open>ETIMEDOUT\<close>) and a DNS lookup that failed (\<^verbatim>\<open>EAI_AGAIN\<close>) are classified
  \<^verbatim>\<open>UNKNOWN_ERROR\<close>, where the table says \<^verbatim>\<open>TIMEOUT\<close> and \<^verbatim>\<open>UNAVAILABLE\<close>.
\<close>

theorem handleApiError_table_counterexample:
  "connection_timeout connect_timed_out
   \<and> first_match mapping_table connect_timed_out = Some TIMEOUT
   \<and> handleApiError (Thrown connect_timed_out) ''form-data'' ''91341-00009-24'' failing_world =
       (Inr \<lparr>success = False, data = None,
              message = Some (JStr ''An unexpected error occurred. Please try again.''),
              cached = None, timestamp = Some ''2025-01-01T00:00:00.000Z'',
              errorCode = Some ''UNKNOWN_ERROR''\<rparr>, failing_world)
   \<and> dns_failure dns_try_again
   \<and> first_match mapping_table dns_try_again = Some UNAVAILABLE
   \<and> handleApiError (Thrown dns_try_again) ''form-data'' ''91341-00009-24'' failing_world =
       (Inr \<lparr>success = False, data = None,
              message = Some (JStr ''An unexpected error occurred. Please try again.''),
              cached = None, timestamp = Some ''2025-01-01T00:00:00.000Z'',
              errorCode = Some ''UNKNOWN_ERROR''\<rparr>, failing_world)"
  by (simp add: connect_timed_out_def dns_try_again_def mapping_table_def connection_timeout_def
      dns_failure_def connection_refused_def error_response_def failing_world_def)

section \<open>The cache operations and the services, step by step\<close>

lemma getFromCache_eq: "getFromCache k w = (Inr (cache_read w k), after_get k w)"
proof (cases "get_fails w k")
  case (Some e)
  then show ?thesis
    by (simp add: getFromCache_def cache_read_def after_get_def redis_get_def io_bind_def
        io_catch_def io_lift_def io_return_def)
next
  case None
  show ?thesis
  proof (cases "store w k")
    case n: None
    with None show ?thesis
      by (simp add: getFromCache_def cache_read_def after_get_def redis_get_def io_bind_def
          io_catch_def io_lift_def io_return_def)
  next
    case (Some entry)
    obtain t ttl where entry: "entry = (t, ttl)" by (cases entry)
    show ?thesis
    proof (cases t)
      case (JsonText j)
      with None Some entry show ?thesis
        by (simp add: getFromCache_def cache_read_def after_get_def redis_get_def io_bind_def
            io_catch_def io_lift_def io_return_def)
    next
      case (BadText s)
      with None Some entry show ?thesis
        by (simp add: getFromCache_def cache_read_def after_get_def redis_get_def io_bind_def
            io_catch_def io_lift_def io_return_def)
    qed
  qed
qed

lemma setInCache_eq: "setInCache k d ttl w = (Inr (), after_set k d ttl w)"
  by (cases "set_fails w k")
     (simp_all add: setInCache_def after_set_def redis_set_def io_catch_def io_bind_def
        io_lift_def io_return_def)

lemma deleteFromCache_eq: "deleteFromCache k w = (Inr (), after_delete k w)"
  by (cases "delete_fails w k")
     (simp_all add: deleteFromCache_def after_delete_def redis_delete_def io_catch_def io_bind_def
        io_lift_def io_return_def)

lemma only_upstream_refl: "only_upstream w w"
  by (simp add: only_upstream_def)

lemma only_upstream_trans:
  "only_upstream w1 w2 \<Longrightarrow> only_upstream w2 w3 \<Longrightarrow> only_upstream w1 w3"
  unfolding only_upstream_def by (elim conjE exE) simp

lemma only_upstream_request:
  "only_upstream w (w\<lparr>sent := Suc (sent w), trace := trace w @ [Http req]\<rparr>)"
  by (simp add: only_upstream_def)

lemma only_upstream_delay: "only_upstream w (delay ms w)"
  by (simp add: only_upstream_def delay_def)

lemma axios_request_cases:
  obtains (fails) e where "axios_request req w = (Inl (Thrown e), w\<lparr>sent := Suc (sent w), trace := trace w @ [Http req]\<rparr>)"
  | (answers) r where "axios_request req w = (Inr r, w\<lparr>sent := Suc (sent w), trace := trace w @ [Http req]\<rparr>)"
  by (cases "upstream w (sent w) req") (auto simp: axios_request_def)

lemma loop_requests:
  "executeWithRetry_loop cfg (axios_request req) retries a lastError w = (r, w') \<Longrightarrow>
   only_upstream w w'
   \<and> (a \<le> retries \<longrightarrow> sent w < sent w')
   \<and> (a \<le> retries \<or> lastError \<noteq> ThrownUndefined \<longrightarrow> r \<noteq> Inl ThrownUndefined)"
proof (induction cfg "axios_request req" retries a lastError w arbitrary: r w'
    rule: executeWithRetry_loop.induct)
  case (1 cfg retries attempt lastError w)
  show ?case
  proof (cases "attempt \<le> retries")
    case False
    with "1.prems" show ?thesis
      by (auto simp: executeWithRetry_loop.simps[of cfg _ retries attempt] only_upstream_refl)
  next
    case True
    let ?w1 = "w\<lparr>sent := Suc (sent w), trace := trace w @ [Http req]\<rparr>"
    show ?thesis
    proof (cases rule: axios_request_cases[of req w])
      case (answers resp)
      with True "1.prems" have "r = Inr (rdata resp)" "w' = ?w1"
        by (simp_all add: executeWithRetry_loop.simps[of cfg _ retries attempt])
      then show ?thesis using only_upstream_request[of w req] by simp
    next
      case (fails e)
      show ?thesis
      proof (cases "is_client_error (Thrown e)")
        case c: True
        with fails True "1.prems" have "r = Inl (Thrown e)" "w' = ?w1"
          by (simp_all add: executeWithRetry_loop.simps[of cfg _ retries attempt])
        then show ?thesis using only_upstream_request[of w req] by simp
      next
        case c: False
        let ?w2 = "if attempt < retries
                     then delay (retryDelay (global cfg) * (attempt + 1)) ?w1 else ?w1"
        from fails True c "1.prems"
        have rec: "executeWithRetry_loop cfg (axios_request req) retries (Suc attempt) (Thrown e) ?w2 = (r, w')"
          by (simp add: executeWithRetry_loop.simps[of cfg _ retries attempt])
        from "1.hyps"[OF True fails[symmetric] refl c rec]
        have ih: "only_upstream ?w2 w'" "r \<noteq> Inl ThrownUndefined" by simp_all
        have "only_upstream w ?w2"
          using only_upstream_request[of w req] only_upstream_delay[of ?w1]
          by (auto intro: only_upstream_trans)
        from this ih(1) have ou: "only_upstream w w'" by (rule only_upstream_trans)
        have "sent w < sent ?w2" by (simp add: delay_def)
        moreover from ih(1) have "sent ?w2 \<le> sent w'" by (simp add: only_upstream_def)
        ultimately have "sent w < sent w'" by simp
        with ou ih(2) show ?thesis by simp
      qed
    qed
  qed
qed

lemma getFormData_eq:
  "getFormData cfg reg w =
     (if truthy (cache_read w (fd_key cfg reg))
      then createSuccessResponse (cache_read w (fd_key cfg reg)) True (after_get (fd_key cfg reg) w)
      else
        (case httpGet cfg (fd_url cfg reg) (after_get (fd_key cfg reg) w) of
           (Inl e, w2) \<Rightarrow> handleApiError e ''form-data'' reg w2
         | (Inr apiResponse, w2) \<Rightarrow>
             if nullish apiResponse then handleApiError TypeError ''form-data'' reg w2
             else if \<not> truthy (rd apiResponse ''success'') \<or> \<not> truthy (rd apiResponse ''data'')
             then (Inr (upstream_failure apiResponse), w2)
             else
               (case fd_transformResponse (rd apiResponse ''data'') of
                  Inl e \<Rightarrow> handleApiError e ''form-data'' reg w2
                | Inr transformed \<Rightarrow>
                    createSuccessResponse transformed False
                      (after_set (fd_key cfg reg) transformed (fd_cacheTtl (formData cfg)) w2))))"
  by (simp add: getFormData_def Let_def fd_key_def fd_url_def io_catch_def io_bind_def
      getFromCache_eq setInCache_eq io_lift_def io_return_def get_prop_def createSuccessResponse_def
      split: prod.split sum.split)

lemma getAdmitCard_eq:
  "getAdmitCard cfg dto type w =
     (if truthy (cache_read w (ac_key cfg type (getIdentifier dto)))
      then createSuccessResponse (cache_read w (ac_key cfg type (getIdentifier dto))) True
             (after_get (ac_key cfg type (getIdentifier dto)) w)
      else
        (case httpPost cfg (ac_url cfg type) (ac_body dto)
                (after_get (ac_key cfg type (getIdentifier dto)) w) of
           (Inl e, w2) \<Rightarrow>
             handleApiError e (type_name type @ ''-admit-card'') (getIdentifier dto) w2
         | (Inr rawData, w2) \<Rightarrow>
             (case ac_transformResponse rawData of
                Inl e \<Rightarrow>
                  handleApiError e (type_name type @ ''-admit-card'') (getIdentifier dto) w2
              | Inr admitCardData \<Rightarrow>
                  createSuccessResponse admitCardData False
                    (after_set (ac_key cfg type (getIdentifier dto)) admitCardData
                       (ac_cacheTtl (admitCard cfg)) w2))))"
  by (simp add: getAdmitCard_def Let_def ac_key_def ac_url_def ac_body_def io_catch_def io_bind_def
      getFromCache_eq setInCache_eq io_lift_def io_return_def createSuccessResponse_def
      split: prod.split sum.split)


lemma httpGet_result:
  "httpGet cfg url w = (r, w') \<Longrightarrow>
     only_upstream w w' \<and> sent w < sent w' \<and> r \<noteq> Inl ThrownUndefined"
  unfolding httpGet_def executeWithRetry_def Let_def
  by (drule loop_requests) simp

lemma httpPost_result:
  "httpPost cfg url body w = (r, w') \<Longrightarrow>
     only_upstream w w' \<and> sent w < sent w' \<and> r \<noteq> Inl ThrownUndefined"
  unfolding httpPost_def executeWithRetry_def Let_def
  by (drule loop_requests) simp


lemma after_get_simps [simp]:
  "sent (after_get k w) = sent w" "store (after_get k w) = store w"
  "clock (after_get k w) = clock w" "trace (after_get k w) = trace w @ [RedisGet k]"
  "set_fails (after_get k w) = set_fails w" "upstream (after_get k w) = upstream w"
  by (simp_all add: after_get_def)

lemma after_set_simps [simp]:
  "sent (after_set k d ttl w) = sent w" "clock (after_set k d ttl w) = clock w"
  "trace (after_set k d ttl w) = trace w @ [RedisSet k (JSON_stringify d) ttl]"
  by (simp_all add: after_set_def split: option.split)




















section \<open>Properties of the services\<close>

lemma executeWithRetry_answer:
  "upstream w (sent w) req = Inr resp \<Longrightarrow>
   executeWithRetry cfg (axios_request req) retries w =
     (Inr (rdata resp), w\<lparr>sent := Suc (sent w), trace := trace w @ [Http req]\<rparr>)"
  unfolding executeWithRetry_def
  by (subst executeWithRetry_loop.simps) (simp add: axios_request_def)

lemma only_upstream_store: "only_upstream w w' \<Longrightarrow> store w' = store w"
  by (simp add: only_upstream_def)

lemma only_upstream_clock: "only_upstream w w' \<Longrightarrow> clock w' = clock w"
  by (simp add: only_upstream_def)

lemma only_upstream_trace:
  "only_upstream w w' \<Longrightarrow> \<exists>evs. trace w' = trace w @ evs \<and> filter is_cache_call evs = []"
  by (simp add: only_upstream_def)

text \<open>
  C10.  In the variant that reads the form-data endpoint with GET, a request
  without a registration number (absent or empty) is answered with the
  envelope \<open>success = false\<close>, message \<^verbatim>\<open>Registration number is required\<close>, and the
  world is left as it was: no call to the cache store, none to the upstream.
  Roll code and roll number play no part, supplied or not.
\<close>

theorem getAdmitCard_get_requires_registrationNumber:
  assumes "\<not> truthy_str (registrationNumber dto)"
  shows "getAdmitCard_get cfg dto type w =
           (Inr \<lparr>success = False, data = None,
                  message = Some (JStr ''Registration number is required''),
                  cached = None, timestamp = None, errorCode = None\<rparr>, w)"
  using assms by (simp add: getAdmitCard_get_def io_return_def)

theorem getAdmitCard_get_requires_registrationNumber_witness:
  "getAdmitCard_get BsebApiConfig request_with_roll THEORY failing_world =
     (Inr \<lparr>success = False, data = None,
            message = Some (JStr ''Registration number is required''),
            cached = None, timestamp = None, errorCode = None\<rparr>, failing_world)"
  using getAdmitCard_get_requires_registrationNumber
          [of request_with_roll BsebApiConfig THEORY failing_world]
  by (simp add: request_with_roll_def)

lemma getAdmitCard_trace:
  "\<exists>r w' evs. getAdmitCard cfg dto type w = (r, w')
     \<and> trace w' = trace w @ RedisGet (ac_key cfg type (getIdentifier dto)) # evs
     \<and> (\<not> truthy (cache_read w (ac_key cfg type (getIdentifier dto))) \<longrightarrow> sent w < sent w')"
proof (cases "truthy (cache_read w (ac_key cfg type (getIdentifier dto)))")
  case True
  then show ?thesis by (simp add: getAdmitCard_eq createSuccessResponse_def)
next
  case miss: False
  let ?k = "ac_key cfg type (getIdentifier dto)"
  obtain r w2 where h: "httpPost cfg (ac_url cfg type) (ac_body dto) (after_get ?k w) = (r, w2)"
    by (cases "httpPost cfg (ac_url cfg type) (ac_body dto) (after_get ?k w)")
  from httpPost_result[OF h] have s: "sent w < sent w2" and d: "r \<noteq> Inl ThrownUndefined"
    and ou: "only_upstream (after_get ?k w) w2" by simp_all
  from only_upstream_trace[OF ou] obtain evs where evs: "trace w2 = trace w @ RedisGet ?k # evs"
    by auto
  have err: "\<exists>r' . handleApiError e c i w2 = (r', w2)" for e c i
    by (cases "(e, c, i, w2)" rule: handleApiError.cases) (simp_all add: Let_def)
  show ?thesis
  proof (cases r)
    case (Inl e)
    from err[of e "type_name type @ ''-admit-card''" "getIdentifier dto"] miss h Inl evs s
    show ?thesis by (auto simp: getAdmitCard_eq)
  next
    case (Inr rawData)
    show ?thesis
    proof (cases "ac_transformResponse rawData")
      case t: (Inl e)
      from err[of e "type_name type @ ''-admit-card''" "getIdentifier dto"] miss h Inr t evs s
      show ?thesis by (auto simp: getAdmitCard_eq)
    next
      case t: (Inr admitCardData)
      from miss h Inr t evs s show ?thesis
        by (simp add: getAdmitCard_eq createSuccessResponse_def)
    qed
  qed
qed

text \<open>
  C4, as amended.  For a request with neither a registration number nor the
  pair of roll code and roll number: the GET variant answers with the envelope
  \<open>success = false\<close>, message \<^verbatim>\<open>Registration number is required\<close>, without any call
  to the cache store or to the upstream; the POST variant has no such check in
  the service: it first reads the cache store under the key built from
  \<^verbatim>\<open>`${rollCode}-${rollNumber}`\<close>, and on a miss sends the request upstream.
\<close>

theorem admit_card_without_identifier:
  assumes "\<not> truthy_str (registrationNumber dto)"
    and "\<not> (truthy_str (rollCode dto) \<and> truthy_str (rollNumber dto))"
  shows "getAdmitCard_get cfg dto type w =
           (Inr \<lparr>success = False, data = None,
                  message = Some (JStr ''Registration number is required''),
                  cached = None, timestamp = None, errorCode = None\<rparr>, w)
       \<and> (\<exists>r w' evs. getAdmitCard cfg dto type w = (r, w')
            \<and> trace w' = trace w @
                 RedisGet (ac_cachePrefix (admitCard cfg) @ '':'' @ type_name type @ '':''
                            @ tmpl (rollCode dto) @ ''-'' @ tmpl (rollNumber dto)) # evs
            \<and> (\<not> truthy (cache_read w (ac_cachePrefix (admitCard cfg) @ '':'' @ type_name type
                  @ '':'' @ tmpl (rollCode dto) @ ''-'' @ tmpl (rollNumber dto)))
                 \<longrightarrow> sent w < sent w'))"
proof -
  have k: "ac_key cfg type (getIdentifier dto) =
      ac_cachePrefix (admitCard cfg) @ '':'' @ type_name type @ '':''
        @ tmpl (rollCode dto) @ ''-'' @ tmpl (rollNumber dto)"
    using assms(1) by (simp add: ac_key_def getIdentifier_def)
  from assms(1) have "getAdmitCard_get cfg dto type w =
           (Inr \<lparr>success = False, data = None,
                  message = Some (JStr ''Registration number is required''),
                  cached = None, timestamp = None, errorCode = None\<rparr>, w)"
    by (simp add: getAdmitCard_get_def io_return_def)
  with getAdmitCard_trace[of cfg dto type w] show ?thesis unfolding k by simp
qed

text \<open>
  C4 as stated fails on the POST variant: with no identifier at all, an empty
  cache store and an upstream answering 404, the service reads the cache store,
  posts once, and returns the envelope of the error normalizer.
\<close>

theorem admit_card_post_counterexample:
  "\<not> truthy_str (registrationNumber request_without_identifier)
   \<and> \<not> truthy_str (rollCode request_without_identifier)
   \<and> \<not> truthy_str (rollNumber request_without_identifier)
   \<and> getAdmitCard BsebApiConfig request_without_identifier THEORY not_found_world =
       (Inr \<lparr>success = False, data = None,
              message = Some (JStr ''No record found for the given details.''),
              cached = None, timestamp = Some ''2025-01-01T00:00:00.000Z'',
              errorCode = Some ''NOT_FOUND''\<rparr>,
        not_found_world\<lparr>sent := 1,
          trace := [RedisGet ''bseb:admitcard:theory:undefined-undefined'',
                    Http (HttpPost ''http://115.243.18.52:8081/api/BsebInter/GetAdmitCardTheory''
                            (JObj [(''registrationNumber'', JStr ''''),
                                   (''rollCode'', JStr ''''),
                                   (''rollNumber'', JStr '''')])
                            \<lparr>ax_timeout = 30000,
                             ax_headers = [(''Content-Type'', ''application/json''),
                                           (''Accept'', ''application/json''),
                                           (''User-Agent'', ''BSEBConnect/1.0'')]\<rparr>)]\<rparr>)"
proof -
  let ?k = "''bseb:admitcard:theory:undefined-undefined''"
  let ?req = "HttpPost ''http://115.243.18.52:8081/api/BsebInter/GetAdmitCardTheory''
                            (JObj [(''registrationNumber'', JStr ''''),
                                   (''rollCode'', JStr ''''),
                                   (''rollNumber'', JStr '''')])
                            \<lparr>ax_timeout = 30000,
                             ax_headers = [(''Content-Type'', ''application/json''),
                                           (''Accept'', ''application/json''),
                                           (''User-Agent'', ''BSEBConnect/1.0'')]\<rparr>"
  have key: "ac_key BsebApiConfig THEORY (getIdentifier request_without_identifier) = ?k"
    by (simp add: ac_key_def getIdentifier_def request_without_identifier_def BsebApiConfig_def)
  have miss: "cache_read not_found_world ?k = JNull"
    by (simp add: cache_read_def not_found_world_def failing_world_def)
  have post: "httpPost BsebApiConfig (ac_url BsebApiConfig THEORY) (ac_body request_without_identifier)
      (after_get ?k not_found_world) =
      (Inl (Thrown (AxiosError (Some (AxiosResponse 404 JNull)) None ''Not Found'')),
       (after_get ?k not_found_world)\<lparr>sent := Suc (sent (after_get ?k not_found_world)),
          trace := trace (after_get ?k not_found_world) @ [Http ?req]\<rparr>)"
    unfolding httpPost_def Let_def
    by (subst executeWithRetry_stops_on_4xx[where r = "AxiosResponse 404 JNull" and c = None
          and m = "''Not Found''"])
       (simp_all add: not_found_world_def failing_world_def after_get_def BsebApiConfig_def
          ac_url_def ac_body_def request_without_identifier_def)
  show ?thesis
    unfolding getAdmitCard_eq key
    by (simp add: miss post, simp add: request_without_identifier_def error_response_def
        opt_message_def js_or_def after_get_def not_found_world_def failing_world_def)
qed

theorem admit_card_without_identifier_witness:
  "getAdmitCard_get BsebApiConfig request_without_identifier THEORY not_found_world =
     (Inr \<lparr>success = False, data = None,
            message = Some (JStr ''Registration number is required''),
            cached = None, timestamp = None, errorCode = None\<rparr>, not_found_world)
   \<and> (\<exists>r w' evs.
         getAdmitCard BsebApiConfig request_without_identifier THEORY not_found_world = (r, w')
         \<and> trace w' = RedisGet ''bseb:admitcard:theory:undefined-undefined'' # evs
         \<and> 0 < sent w')"
proof -
  have a: "\<not> truthy_str (registrationNumber request_without_identifier)"
    and b: "\<not> (truthy_str (rollCode request_without_identifier)
               \<and> truthy_str (rollNumber request_without_identifier))"
    by (simp_all add: request_without_identifier_def)
  have miss: "cache_read not_found_world ''bseb:admitcard:theory:undefined-undefined'' = JNull"
    by (simp add: cache_read_def not_found_world_def failing_world_def)
  from admit_card_without_identifier[OF a b, of BsebApiConfig THEORY not_found_world]
  show ?thesis
    by (simp add: request_without_identifier_def BsebApiConfig_def miss)
       (simp add: not_found_world_def failing_world_def)
qed

text \<open>
  C5, as amended.  When the cache store has nothing for the key and the
  upstream answers (the request resolves) with a body whose \<^verbatim>\<open>success\<close> is falsy
  or whose \<^verbatim>\<open>data\<close> is falsy: if the body is neither \<^verbatim>\<open>null\<close> nor \<^verbatim>\<open>undefined\<close>,
  \<^verbatim>\<open>getFormData\<close> returns \<open>success = false\<close> with the upstream's message (the
  default text when the upstream sent none), without error code or timestamp
  (those are what the error normalizer sets); if the body is \<^verbatim>\<open>null\<close> or
  \<^verbatim>\<open>undefined\<close>, reading its \<^verbatim>\<open>success\<close> throws and \<^verbatim>\<open>getFormData\<close> returns the
  envelope of the error normalizer, code \<^verbatim>\<open>UNKNOWN_ERROR\<close>.  In both cases the
  content of the cache store is unchanged, and after the read of the key no
  call goes to the cache store.
\<close>

theorem upstream_failure_not_cached:
  assumes "getFromCache (fd_key cfg reg) w = (Inr c, w1)"
    and "\<not> truthy c"
    and "httpGet cfg (fd_url cfg reg) w1 = (Inr apiResponse, w2)"
    and "\<not> truthy (rd apiResponse ''success'') \<or> \<not> truthy (rd apiResponse ''data'')"
  shows "(\<not> nullish apiResponse \<longrightarrow>
            getFormData cfg reg w =
              (Inr \<lparr>success = False, data = None,
                     message = Some (js_or (rd apiResponse ''message'')
                                       (JStr ''No data returned from BSEB API'')),
                     cached = None, timestamp = None, errorCode = None\<rparr>, w2)
            \<and> (truthy (rd apiResponse ''message'') \<longrightarrow>
                 js_or (rd apiResponse ''message'') (JStr ''No data returned from BSEB API'')
                   = rd apiResponse ''message''))
       \<and> (nullish apiResponse \<longrightarrow>
            getFormData cfg reg w =
              (Inr \<lparr>success = False, data = None,
                     message = Some (JStr ''An unexpected error occurred. Please try again.''),
                     cached = None, timestamp = Some (clock w),
                     errorCode = Some ''UNKNOWN_ERROR''\<rparr>, w2))
       \<and> store w2 = store w
       \<and> (\<exists>evs. trace w2 = trace w @ RedisGet (fd_key cfg reg) # evs
                 \<and> filter is_cache_call evs = [])"
proof -
  from assms(1) have c: "c = cache_read w (fd_key cfg reg)" and w1: "w1 = after_get (fd_key cfg reg) w"
    by (simp_all add: getFromCache_eq)
  from httpGet_result[OF assms(3)] have ou: "only_upstream w1 w2" by simp
  have cl: "clock w2 = clock w" using only_upstream_clock[OF ou] by (simp add: w1)
  have A: "\<not> nullish apiResponse \<longrightarrow>
      getFormData cfg reg w = (Inr (upstream_failure apiResponse), w2)"
    using assms(2-4) unfolding c w1 by (auto simp: getFormData_eq)
  have B: "nullish apiResponse \<longrightarrow>
      getFormData cfg reg w =
        (Inr (error_response (JStr ''An unexpected error occurred. Please try again.'')
                ''UNKNOWN_ERROR'' (clock w)), w2)"
    using assms(2,3) cl unfolding c w1 by (auto simp: getFormData_eq TypeError_def)
  have C: "store w2 = store w"
    using only_upstream_store[OF ou] by (simp add: w1)
  have D: "\<exists>evs. trace w2 = trace w @ RedisGet (fd_key cfg reg) # evs
                 \<and> filter is_cache_call evs = []"
    using only_upstream_trace[OF ou] by (simp add: w1)
  from A B C D show ?thesis
    by (simp add: upstream_failure_def error_response_def js_or_def)
qed

lemma null_body_fetch:
  "getFromCache (fd_key BsebApiConfig ''91341-00009-24'') null_body_world =
     (Inr JNull, after_get (fd_key BsebApiConfig ''91341-00009-24'') null_body_world)
   \<and> httpGet BsebApiConfig (fd_url BsebApiConfig ''91341-00009-24'')
        (after_get (fd_key BsebApiConfig ''91341-00009-24'') null_body_world) =
     (Inr JNull,
      null_body_world\<lparr>sent := 1,
        trace := [RedisGet ''bseb:form:91341-00009-24'',
                  Http (HttpGet ''https://examapi.biharboardonline.org/export/app/91341-00009-24?hash=a591a6d40bf420404a011733cfb7b190d62c6''
                    \<lparr>ax_timeout = 30000,
                     ax_headers = [(''Accept'', ''application/json''),
                                   (''User-Agent'', ''BSEBConnect/1.0'')]\<rparr>)]\<rparr>)"
proof -
  let ?k = "fd_key BsebApiConfig ''91341-00009-24''"
  let ?w1 = "after_get ?k null_body_world"
  let ?req = "HttpGet (fd_url BsebApiConfig ''91341-00009-24'')
      \<lparr>ax_timeout = 30000,
       ax_headers = [(''Accept'', ''application/json''), (''User-Agent'', ''BSEBConnect/1.0'')]\<rparr>"
  have g: "getFromCache ?k null_body_world = (Inr JNull, ?w1)"
    by (simp add: getFromCache_eq cache_read_def null_body_world_def failing_world_def)
  have h: "httpGet BsebApiConfig (fd_url BsebApiConfig ''91341-00009-24'') ?w1 =
      (Inr JNull, ?w1\<lparr>sent := Suc (sent ?w1), trace := trace ?w1 @ [Http ?req]\<rparr>)"
    unfolding httpGet_def Let_def
    by (subst executeWithRetry_answer[where resp = "AxiosResponse 200 JNull"])
       (simp_all add: null_body_world_def failing_world_def after_get_def BsebApiConfig_def)
  have w: "?w1\<lparr>sent := Suc (sent ?w1), trace := trace ?w1 @ [Http ?req]\<rparr> =
      null_body_world\<lparr>sent := 1,
        trace := [RedisGet ''bseb:form:91341-00009-24'',
                  Http (HttpGet ''https://examapi.biharboardonline.org/export/app/91341-00009-24?hash=a591a6d40bf420404a011733cfb7b190d62c6''
                    \<lparr>ax_timeout = 30000,
                     ax_headers = [(''Accept'', ''application/json''),
                                   (''User-Agent'', ''BSEBConnect/1.0'')]\<rparr>)]\<rparr>"
    by (simp add: fd_key_def fd_url_def BsebApiConfig_def after_get_def null_body_world_def
        failing_world_def)
  from g h w show ?thesis by simp
qed

theorem upstream_failure_not_cached_witness:
  "getFormData BsebApiConfig ''91341-00009-24'' refusing_world =
     (Inr \<lparr>success = False, data = None, message = Some (JStr ''x''),
            cached = None, timestamp = None, errorCode = None\<rparr>,
      refusing_world\<lparr>sent := 1,
        trace := [RedisGet ''bseb:form:91341-00009-24'',
                  Http (HttpGet ''https://examapi.biharboardonline.org/export/app/91341-00009-24?hash=a591a6d40bf420404a011733cfb7b190d62c6''
                    \<lparr>ax_timeout = 30000,
                     ax_headers = [(''Accept'', ''application/json''),
                                   (''User-Agent'', ''BSEBConnect/1.0'')]\<rparr>)]\<rparr>)
   \<and> store (snd (getFormData BsebApiConfig ''91341-00009-24'' refusing_world)) = store refusing_world
   \<and> fst (getFormData BsebApiConfig ''91341-00009-24'' null_body_world) =
       Inr \<lparr>success = False, data = None,
             message = Some (JStr ''An unexpected error occurred. Please try again.''),
             cached = None, timestamp = Some ''2025-01-01T00:00:00.000Z'',
             errorCode = Some ''UNKNOWN_ERROR''\<rparr>
   \<and> store (snd (getFormData BsebApiConfig ''91341-00009-24'' null_body_world)) =
       store null_body_world"
proof -
  let ?k = "fd_key BsebApiConfig ''91341-00009-24''"
  let ?resp = "JObj [(''success'', JBool False), (''message'', JStr ''x'')]"
  let ?w1 = "after_get ?k refusing_world"
  let ?req = "HttpGet (fd_url BsebApiConfig ''91341-00009-24'')
      \<lparr>ax_timeout = 30000,
       ax_headers = [(''Accept'', ''application/json''), (''User-Agent'', ''BSEBConnect/1.0'')]\<rparr>"
  have g: "getFromCache ?k refusing_world = (Inr JNull, ?w1)"
    by (simp add: getFromCache_eq cache_read_def refusing_world_def failing_world_def)
  have f: "\<not> truthy JNull" by simp
  have h: "httpGet BsebApiConfig (fd_url BsebApiConfig ''91341-00009-24'') ?w1 =
      (Inr ?resp, ?w1\<lparr>sent := Suc (sent ?w1), trace := trace ?w1 @ [Http ?req]\<rparr>)"
    unfolding httpGet_def Let_def
    by (subst executeWithRetry_answer[where resp = "AxiosResponse 200 ?resp"])
       (simp_all add: refusing_world_def failing_world_def after_get_def BsebApiConfig_def)
  have b: "\<not> truthy (rd ?resp ''success'') \<or> \<not> truthy (rd ?resp ''data'')" by simp
  from upstream_failure_not_cached[OF g f h b]
  have first: "getFormData BsebApiConfig ''91341-00009-24'' refusing_world =
     (Inr \<lparr>success = False, data = None, message = Some (JStr ''x''),
            cached = None, timestamp = None, errorCode = None\<rparr>,
      refusing_world\<lparr>sent := 1,
        trace := [RedisGet ''bseb:form:91341-00009-24'',
                  Http (HttpGet ''https://examapi.biharboardonline.org/export/app/91341-00009-24?hash=a591a6d40bf420404a011733cfb7b190d62c6''
                    \<lparr>ax_timeout = 30000,
                     ax_headers = [(''Accept'', ''application/json''),
                                   (''User-Agent'', ''BSEBConnect/1.0'')]\<rparr>)]\<rparr>)
   \<and> store (snd (getFormData BsebApiConfig ''91341-00009-24'' refusing_world)) = store refusing_world"
    by (simp add: js_or_def)
       (simp add: fd_key_def fd_url_def BsebApiConfig_def after_get_def refusing_world_def
          failing_world_def)
  have bn: "\<not> truthy (rd JNull ''success'') \<or> \<not> truthy (rd JNull ''data'')" by simp
  have cl: "clock null_body_world = ''2025-01-01T00:00:00.000Z''"
    by (simp add: null_body_world_def failing_world_def)
  from upstream_failure_not_cached[OF null_body_fetch[THEN conjunct1] f
      null_body_fetch[THEN conjunct2] bn]
  have second: "fst (getFormData BsebApiConfig ''91341-00009-24'' null_body_world) =
       Inr \<lparr>success = False, data = None,
             message = Some (JStr ''An unexpected error occurred. Please try again.''),
             cached = None, timestamp = Some ''2025-01-01T00:00:00.000Z'',
             errorCode = Some ''UNKNOWN_ERROR''\<rparr>
   \<and> store (snd (getFormData BsebApiConfig ''91341-00009-24'' null_body_world)) =
       store null_body_world"
    by (simp add: cl)
  from first second show ?thesis by simp
qed

text \<open>
  C5 as stated fails when the upstream answers 200 with the body \<^verbatim>\<open>null\<close>: the
  body has no data, yet the envelope comes from the error normalizer.
\<close>

theorem upstream_failure_null_body_counterexample:
  "\<not> truthy (rd JNull ''data'')
   \<and> getFormData BsebApiConfig ''91341-00009-24'' null_body_world =
     (Inr \<lparr>success = False, data = None,
            message = Some (JStr ''An unexpected error occurred. Please try again.''),
            cached = None, timestamp = Some ''2025-01-01T00:00:00.000Z'',
            errorCode = Some ''UNKNOWN_ERROR''\<rparr>,
      null_body_world\<lparr>sent := 1,
        trace := [RedisGet ''bseb:form:91341-00009-24'',
                  Http (HttpGet ''https://examapi.biharboardonline.org/export/app/91341-00009-24?hash=a591a6d40bf420404a011733cfb7b190d62c6''
                    \<lparr>ax_timeout = 30000,
                     ax_headers = [(''Accept'', ''application/json''),
                                   (''User-Agent'', ''BSEBConnect/1.0'')]\<rparr>)]\<rparr>)"
proof -
  have miss: "\<not> truthy (cache_read null_body_world (fd_key BsebApiConfig ''91341-00009-24''))"
    by (simp add: cache_read_def null_body_world_def failing_world_def)
  from null_body_fetch have h: "httpGet BsebApiConfig (fd_url BsebApiConfig ''91341-00009-24'')
        (after_get (fd_key BsebApiConfig ''91341-00009-24'') null_body_world) =
     (Inr JNull,
      null_body_world\<lparr>sent := 1,
        trace := [RedisGet ''bseb:form:91341-00009-24'',
                  Http (HttpGet ''https://examapi.biharboardonline.org/export/app/91341-00009-24?hash=a591a6d40bf420404a011733cfb7b190d62c6''
                    \<lparr>ax_timeout = 30000,
                     ax_headers = [(''Accept'', ''application/json''),
                                   (''User-Agent'', ''BSEBConnect/1.0'')]\<rparr>)]\<rparr>)"
    by simp
  show ?thesis
    by (simp add: getFormData_eq miss h TypeError_def error_response_def)
       (simp add: null_body_world_def failing_world_def)
qed

lemma fd_transformResponse_defined:
  "truthy raw \<Longrightarrow> \<exists>t. fd_transformResponse raw = Inr t"
  by (cases raw) (simp_all add: fd_transformResponse_def)

text \<open>
  C6.  The three cache operations never throw.  When the store throws, the
  read returns \<^verbatim>\<open>null\<close> and the write and the delete change nothing but the
  trace.  When the read throws and the upstream answers with data,
  \<^verbatim>\<open>getFormData\<close> returns \<open>success = true\<close>, the transformed data and
  \<open>cached = false\<close>; on any miss the envelope is the same whether the write
  throws or not, and when it throws the store is unchanged.
\<close>

theorem cache_best_effort:
  "(get_fails w k = Some e \<longrightarrow>
      getFromCache k w = (Inr JNull, w\<lparr>trace := trace w @ [RedisGet k]\<rparr>))
   \<and> (set_fails w k = Some e \<longrightarrow>
      setInCache k d ttl w =
        (Inr (), w\<lparr>trace := trace w @ [RedisSet k (JSON_stringify d) ttl]\<rparr>))
   \<and> (delete_fails w k = Some e \<longrightarrow>
      deleteFromCache k w = (Inr (), w\<lparr>trace := trace w @ [RedisDelete k]\<rparr>))
   \<and> (\<exists>v w'. getFromCache k w = (Inr v, w'))
   \<and> (\<exists>w'. setInCache k d ttl w = (Inr (), w'))
   \<and> (\<exists>w'. deleteFromCache k w = (Inr (), w'))
   \<and> (get_fails w (fd_key cfg reg) = Some e \<longrightarrow>
      httpGet cfg (fd_url cfg reg) (w\<lparr>trace := trace w @ [RedisGet (fd_key cfg reg)]\<rparr>)
        = (Inr apiResponse, wb) \<longrightarrow>
      truthy (rd apiResponse ''success'') \<longrightarrow> truthy (rd apiResponse ''data'') \<longrightarrow>
      (\<exists>t. fd_transformResponse (rd apiResponse ''data'') = Inr t
         \<and> fst (getFormData cfg reg w) =
             Inr \<lparr>success = True, data = Some t, message = None, cached = Some False,
                   timestamp = Some (clock w), errorCode = None\<rparr>))
   \<and> (getFromCache (fd_key cfg reg) w = (Inr c, wa) \<longrightarrow> \<not> truthy c \<longrightarrow>
      httpGet cfg (fd_url cfg reg) wa = (Inr apiResponse, wb) \<longrightarrow>
      truthy (rd apiResponse ''success'') \<longrightarrow> truthy (rd apiResponse ''data'') \<longrightarrow>
      (\<exists>t. fd_transformResponse (rd apiResponse ''data'') = Inr t
         \<and> fst (getFormData cfg reg w) =
             Inr \<lparr>success = True, data = Some t, message = None, cached = Some False,
                   timestamp = Some (clock w), errorCode = None\<rparr>
         \<and> (set_fails w (fd_key cfg reg) = Some e \<longrightarrow>
              store (snd (getFormData cfg reg w)) = store w)))"
proof -
  have fresh: "\<exists>t. fd_transformResponse (rd apiResponse ''data'') = Inr t
         \<and> fst (getFormData cfg reg w) =
             Inr \<lparr>success = True, data = Some t, message = None, cached = Some False,
                   timestamp = Some (clock w), errorCode = None\<rparr>
         \<and> (set_fails w (fd_key cfg reg) = Some e \<longrightarrow>
              store (snd (getFormData cfg reg w)) = store w)"
    if miss: "\<not> truthy (cache_read w (fd_key cfg reg))"
      and h: "httpGet cfg (fd_url cfg reg) (after_get (fd_key cfg reg) w) = (Inr apiResponse, wb)"
      and ok: "truthy (rd apiResponse ''success'')" and dt: "truthy (rd apiResponse ''data'')"
    for apiResponse wb
  proof -
    from fd_transformResponse_defined[OF dt] obtain t
      where t: "fd_transformResponse (rd apiResponse ''data'') = Inr t" by blast
    from httpGet_result[OF h] have ou: "only_upstream (after_get (fd_key cfg reg) w) wb" by simp
    have cl: "clock wb = clock w" using only_upstream_clock[OF ou] by simp
    have st: "store wb = store w" using only_upstream_store[OF ou] by simp
    have sf: "set_fails wb = set_fails w" using ou by (simp add: only_upstream_def)
    have nn: "\<not> nullish apiResponse" using ok by (cases apiResponse) simp_all
    have eq: "getFormData cfg reg w =
        createSuccessResponse t False
          (after_set (fd_key cfg reg) t (fd_cacheTtl (formData cfg)) wb)"
      using miss h ok dt t nn by (simp add: getFormData_eq)
    have sto: "set_fails w (fd_key cfg reg) = Some e \<longrightarrow>
        store (after_set (fd_key cfg reg) t (fd_cacheTtl (formData cfg)) wb) = store w"
      by (simp add: after_set_def sf st)
    show ?thesis
      using t sto by (simp add: eq createSuccessResponse_def cl)
  qed
  have A: "get_fails w k = Some e \<longrightarrow>
      getFromCache k w = (Inr JNull, w\<lparr>trace := trace w @ [RedisGet k]\<rparr>)" for k
    by (simp add: getFromCache_eq cache_read_def after_get_def)
  have B: "set_fails w k = Some e \<longrightarrow>
      setInCache k d ttl w =
        (Inr (), w\<lparr>trace := trace w @ [RedisSet k (JSON_stringify d) ttl]\<rparr>)"
    by (simp add: setInCache_eq after_set_def)
  have C: "delete_fails w k = Some e \<longrightarrow>
      deleteFromCache k w = (Inr (), w\<lparr>trace := trace w @ [RedisDelete k]\<rparr>)"
    by (simp add: deleteFromCache_eq after_delete_def)
  have D: "\<exists>v w'. getFromCache k w = (Inr v, w')" by (simp add: getFromCache_eq)
  have E: "\<exists>w'. setInCache k d ttl w = (Inr (), w')" by (simp add: setInCache_eq)
  have F: "\<exists>w'. deleteFromCache k w = (Inr (), w')" by (simp add: deleteFromCache_eq)
  have G: "get_fails w (fd_key cfg reg) = Some e \<longrightarrow>
      httpGet cfg (fd_url cfg reg) (w\<lparr>trace := trace w @ [RedisGet (fd_key cfg reg)]\<rparr>)
        = (Inr apiResponse, wb) \<longrightarrow>
      truthy (rd apiResponse ''success'') \<longrightarrow> truthy (rd apiResponse ''data'') \<longrightarrow>
      (\<exists>t. fd_transformResponse (rd apiResponse ''data'') = Inr t
         \<and> fst (getFormData cfg reg w) =
             Inr \<lparr>success = True, data = Some t, message = None, cached = Some False,
                   timestamp = Some (clock w), errorCode = None\<rparr>)"
  proof (intro impI)
    assume g: "get_fails w (fd_key cfg reg) = Some e"
      and h: "httpGet cfg (fd_url cfg reg) (w\<lparr>trace := trace w @ [RedisGet (fd_key cfg reg)]\<rparr>)
        = (Inr apiResponse, wb)"
      and ok: "truthy (rd apiResponse ''success'')" and dt: "truthy (rd apiResponse ''data'')"
    from g have miss: "\<not> truthy (cache_read w (fd_key cfg reg))" by (simp add: cache_read_def)
    from h have h': "httpGet cfg (fd_url cfg reg) (after_get (fd_key cfg reg) w) = (Inr apiResponse, wb)"
      by (simp add: after_get_def)
    from fresh[OF miss h' ok dt] show "\<exists>t. fd_transformResponse (rd apiResponse ''data'') = Inr t
         \<and> fst (getFormData cfg reg w) =
             Inr \<lparr>success = True, data = Some t, message = None, cached = Some False,
                   timestamp = Some (clock w), errorCode = None\<rparr>" by blast
  qed
  have H: "getFromCache (fd_key cfg reg) w = (Inr c, wa) \<longrightarrow> \<not> truthy c \<longrightarrow>
      httpGet cfg (fd_url cfg reg) wa = (Inr apiResponse, wb) \<longrightarrow>
      truthy (rd apiResponse ''success'') \<longrightarrow> truthy (rd apiResponse ''data'') \<longrightarrow>
      (\<exists>t. fd_transformResponse (rd apiResponse ''data'') = Inr t
         \<and> fst (getFormData cfg reg w) =
             Inr \<lparr>success = True, data = Some t, message = None, cached = Some False,
                   timestamp = Some (clock w), errorCode = None\<rparr>
         \<and> (set_fails w (fd_key cfg reg) = Some e \<longrightarrow>
              store (snd (getFormData cfg reg w)) = store w))"
  proof (intro impI)
    assume g: "getFromCache (fd_key cfg reg) w = (Inr c, wa)" and f: "\<not> truthy c"
      and h: "httpGet cfg (fd_url cfg reg) wa = (Inr apiResponse, wb)"
      and ok: "truthy (rd apiResponse ''success'')" and dt: "truthy (rd apiResponse ''data'')"
    from g have c: "c = cache_read w (fd_key cfg reg)" and wa: "wa = after_get (fd_key cfg reg) w"
      by (simp_all add: getFromCache_eq)
    from fresh[OF f[unfolded c] h[unfolded wa] ok dt]
    show "\<exists>t. fd_transformResponse (rd apiResponse ''data'') = Inr t
         \<and> fst (getFormData cfg reg w) =
             Inr \<lparr>success = True, data = Some t, message = None, cached = Some False,
                   timestamp = Some (clock w), errorCode = None\<rparr>
         \<and> (set_fails w (fd_key cfg reg) = Some e \<longrightarrow>
              store (snd (getFormData cfg reg w)) = store w)" .
  qed
  from A[of k] B C D E F G H show ?thesis by (intro conjI)
qed

theorem cache_best_effort_witness:
  "getFromCache ''bseb:form:91341-00009-24'' broken_cache_world =
     (Inr JNull, broken_cache_world\<lparr>trace := [RedisGet ''bseb:form:91341-00009-24'']\<rparr>)
   \<and> setInCache ''bseb:form:91341-00009-24'' (JObj []) 86400 broken_cache_world =
     (Inr (), broken_cache_world\<lparr>trace :=
        [RedisSet ''bseb:form:91341-00009-24'' (JSON_stringify (JObj [])) 86400]\<rparr>)
   \<and> deleteFromCache ''bseb:form:91341-00009-24'' broken_cache_world =
     (Inr (), broken_cache_world\<lparr>trace := [RedisDelete ''bseb:form:91341-00009-24'']\<rparr>)
   \<and> (\<exists>t. fst (getFormData BsebApiConfig ''91341-00009-24'' broken_cache_world) =
           Inr \<lparr>success = True, data = Some t, message = None, cached = Some False,
                 timestamp = Some ''2025-01-01T00:00:00.000Z'', errorCode = None\<rparr>
         \<and> rd t ''name'' = JStr ''A''
         \<and> rd t ''registrationNumber'' = JStr ''91341-00009-24'')
   \<and> store (snd (getFormData BsebApiConfig ''91341-00009-24'' broken_cache_world)) =
       store broken_cache_world"
proof -
  let ?k = "''bseb:form:91341-00009-24''"
  let ?e = "OtherError ''ECONNREFUSED''"
  let ?data = "JObj [(''reg_no'', JStr ''91341-00009-24''), (''name'', JStr ''A'')]"
  let ?resp = "JObj [(''success'', JBool True), (''data'', ?data)]"
  let ?w1 = "broken_cache_world\<lparr>trace := trace broken_cache_world @ [RedisGet ?k]\<rparr>"
  let ?req = "HttpGet (fd_url BsebApiConfig ''91341-00009-24'')
      \<lparr>ax_timeout = 30000,
       ax_headers = [(''Accept'', ''application/json''), (''User-Agent'', ''BSEBConnect/1.0'')]\<rparr>"
  let ?w2 = "?w1\<lparr>sent := Suc (sent ?w1), trace := trace ?w1 @ [Http ?req]\<rparr>"
  have key: "fd_key BsebApiConfig ''91341-00009-24'' = ?k"
    by (simp add: fd_key_def BsebApiConfig_def)
  have gf: "get_fails broken_cache_world ?k = Some ?e"
    and sf: "set_fails broken_cache_world ?k = Some ?e"
    and df: "delete_fails broken_cache_world ?k = Some ?e"
    by (simp_all add: broken_cache_world_def failing_world_def)
  have tr: "trace broken_cache_world = []"
    and cl: "clock broken_cache_world = ''2025-01-01T00:00:00.000Z''"
    by (simp_all add: broken_cache_world_def failing_world_def)
  have h: "httpGet BsebApiConfig (fd_url BsebApiConfig ''91341-00009-24'') ?w1 = (Inr ?resp, ?w2)"
    unfolding httpGet_def Let_def
    by (subst executeWithRetry_answer[where resp = "AxiosResponse 200 ?resp"])
       (simp_all add: broken_cache_world_def failing_world_def BsebApiConfig_def)
  have g: "getFromCache ?k broken_cache_world = (Inr JNull, ?w1)"
    by (simp add: getFromCache_eq cache_read_def after_get_def gf)
  have ok: "truthy (rd ?resp ''success'')" and dt: "truthy (rd ?resp ''data'')"
    and f: "\<not> truthy JNull" and rdd: "rd ?resp ''data'' = ?data"
    by simp_all
  note inst = cache_best_effort[where w = broken_cache_world and k = ?k and e = ?e
      and d = "JObj []" and ttl = 86400 and cfg = BsebApiConfig and reg = "''91341-00009-24''"
      and apiResponse = ?resp and wb = ?w2 and c = JNull and wa = ?w1, unfolded key]
  from inst gf have A: "getFromCache ?k broken_cache_world =
      (Inr JNull, broken_cache_world\<lparr>trace := [RedisGet ?k]\<rparr>)"
    by (simp add: tr)
  from inst sf have B: "setInCache ?k (JObj []) 86400 broken_cache_world =
      (Inr (), broken_cache_world\<lparr>trace := [RedisSet ?k (JSON_stringify (JObj [])) 86400]\<rparr>)"
    by (simp add: tr)
  from inst df have C: "deleteFromCache ?k broken_cache_world =
      (Inr (), broken_cache_world\<lparr>trace := [RedisDelete ?k]\<rparr>)"
    by (simp add: tr)
  from inst g f h ok dt sf
  obtain t where t: "fd_transformResponse (rd ?resp ''data'') = Inr t"
    and env: "fst (getFormData BsebApiConfig ''91341-00009-24'' broken_cache_world) =
             Inr \<lparr>success = True, data = Some t, message = None, cached = Some False,
                   timestamp = Some (clock broken_cache_world), errorCode = None\<rparr>"
    and st: "store (snd (getFormData BsebApiConfig ''91341-00009-24'' broken_cache_world)) =
       store broken_cache_world"
    by blast
  from t have "rd t ''name'' = JStr ''A''" "rd t ''registrationNumber'' = JStr ''91341-00009-24''"
    unfolding rdd by (auto simp: fd_transformResponse_def)
  with env cl A B C st show ?thesis by simp
qed



lemma getFieldValue_first_defined:
  "\<not> nullish obj \<Longrightarrow> getFieldValue obj keys = Inr (first_defined obj keys)"
  by (induction keys) (simp_all add: first_defined_def)

lemma rd_defined_object: "rd obj k = v \<Longrightarrow> v \<noteq> JUndefined \<Longrightarrow> \<not> nullish obj \<and> truthy obj"
  by (cases obj) auto

lemma build_object_pair:
  "build_object [(a, X), (b, r)] = Inr out \<Longrightarrow>
     \<exists>x y. X = Inr x \<and> r = Inr y \<and> out = JObj [(a, x), (b, y)]"
  by (cases X; cases r) (auto split: sum.splits json.splits)

lemma ac_transformResponse_student:
  assumes "truthy (rd rawData ''StudentDetails'')"
    and "ac_transformResponse rawData = Inr out"
  shows "\<exists>rest subj. out = JObj [
      (''studentDetails'', JObj ((''studentName'',
          first_defined (rd rawData ''StudentDetails'') [''StudentName'', ''studentName'']) # rest)),
      (''subjectDetails'', subj)]"
proof -
  let ?sd = "rd rawData ''StudentDetails''"
  have nn: "\<not> nullish ?sd" using assms(1) by (cases ?sd) simp_all
  have nr: "\<not> nullish rawData" using assms(1) by (cases rawData) simp_all
  have sd: "js_or (js_or ?sd (rd rawData ''studentDetails'')) (JObj []) = ?sd"
    using assms(1) by (simp add: js_or_def)
  from assms(2) show ?thesis
    unfolding ac_transformResponse_def Let_def sd
    apply (simp only: nr if_False)
    apply (drule build_object_pair)
    apply (elim exE conjE)
    apply (simp add: getFieldValue_first_defined[OF nn] del: getFieldValue.simps)
    apply auto
    done
qed

text \<open>
  C8.  On an object, \<^verbatim>\<open>getFieldValue\<close> returns the value of the first listed key
  whose value is neither \<^verbatim>\<open>undefined\<close> nor \<^verbatim>\<open>null\<close>, and \<^verbatim>\<open>undefined\<close> when there
  is none.  With \<^verbatim>\<open>StudentName: "A"\<close> and \<^verbatim>\<open>studentName: "B"\<close> the keys
  \<^verbatim>\<open>StudentName, studentName\<close> give \<^verbatim>\<open>"A"\<close>, and so does the transformer of the
  POST variant.  The result is a function of the object and the key list.
\<close>

theorem getFieldValue_first_listed_wins:
  "(\<not> nullish obj \<longrightarrow> getFieldValue obj keys = Inr (first_defined obj keys))
   \<and> (rd obj ''StudentName'' = JStr ''A'' \<longrightarrow> rd obj ''studentName'' = JStr ''B'' \<longrightarrow>
        getFieldValue obj [''StudentName'', ''studentName''] = Inr (JStr ''A'')
        \<and> (\<forall>rawData out.
              rd rawData ''StudentDetails'' = obj \<longrightarrow> ac_transformResponse rawData = Inr out \<longrightarrow>
              rd (rd out ''studentDetails'') ''studentName'' = JStr ''A''))"
proof (intro conjI impI allI)
  assume "\<not> nullish obj"
  then show "getFieldValue obj keys = Inr (first_defined obj keys)"
    by (rule getFieldValue_first_defined)
next
  assume a: "rd obj ''StudentName'' = JStr ''A''"
  from rd_defined_object[OF a] show "getFieldValue obj [''StudentName'', ''studentName''] = Inr (JStr ''A'')"
    using a by simp
next
  fix rawData out
  assume a: "rd obj ''StudentName'' = JStr ''A''"
    and r: "rd rawData ''StudentDetails'' = obj"
    and t: "ac_transformResponse rawData = Inr out"
  from rd_defined_object[OF a] have "truthy obj" by simp
  with r have "truthy (rd rawData ''StudentDetails'')" by simp
  from ac_transformResponse_student[OF this t] r a
  show "rd (rd out ''studentDetails'') ''studentName'' = JStr ''A''"
    by (auto simp: first_defined_def)
qed

theorem getFieldValue_first_listed_wins_witness:
  "getFieldValue two_casings [''StudentName'', ''studentName''] = Inr (JStr ''A'')
   \<and> getFieldValue two_casings [''studentName'', ''StudentName''] = Inr (JStr ''B'')
   \<and> (\<exists>out. ac_transformResponse admit_raw_example = Inr out
         \<and> rd (rd out ''studentDetails'') ''studentName'' = JStr ''A'')"
proof -
  have a: "rd two_casings ''StudentName'' = JStr ''A''" and b: "rd two_casings ''studentName'' = JStr ''B''"
    and n: "\<not> nullish two_casings"
    by (simp_all add: two_casings_def)
  have r: "rd admit_raw_example ''StudentDetails'' = two_casings"
    by (simp add: admit_raw_example_def)
  obtain out where out: "ac_transformResponse admit_raw_example = Inr out"
    by (cases "ac_transformResponse admit_raw_example")
       (simp_all add: ac_transformResponse_def admit_raw_example_def two_casings_def js_or_def)
  from getFieldValue_first_listed_wins[of two_casings "[''studentName'', ''StudentName'']"] a b n r out
  show ?thesis
    by (auto simp: first_defined_def)
qed

lemma acg_transformResponse_shape:
  "acg_transformResponse raw type = Inr out \<Longrightarrow>
   \<exists>sd subj photo. out = JObj [(''studentDetails'', sd), (''subjectDetails'', subj),
                                 (''photoUrl'', photo)]"
  by (auto simp: acg_transformResponse_def Let_def split: if_splits)

lemma ac_transformResponse_shape:
  "ac_transformResponse raw = Inr out \<Longrightarrow>
   \<exists>sd subj. out = JObj [(''studentDetails'', sd), (''subjectDetails'', subj)]"
  unfolding ac_transformResponse_def Let_def
  apply (cases "nullish raw")
   apply simp
  apply (simp only: if_False)
  apply (drule build_object_pair)
  apply blast
  done

text \<open>
  C9, as amended.  A successful transform of form data keeps the raw payload
  in the field \<^verbatim>\<open>rawData\<close>, beside the normalized fields.  The admit-card
  records consist of \<^verbatim>\<open>studentDetails\<close> and \<^verbatim>\<open>subjectDetails\<close> only (and
  \<^verbatim>\<open>photoUrl\<close> in the GET variant): they do not carry the raw payload.
\<close>

theorem raw_payload_kept_by_form_data_only:
  "(fd_transformResponse raw = Inr out \<longrightarrow> rd out ''rawData'' = raw \<and> keeps_raw out raw)
   \<and> (ac_transformResponse raw = Inr out \<longrightarrow>
        (\<exists>sd subj. out = JObj [(''studentDetails'', sd), (''subjectDetails'', subj)]))
   \<and> (acg_transformResponse raw type = Inr out \<longrightarrow>
        (\<exists>sd subj photo. out = JObj [(''studentDetails'', sd), (''subjectDetails'', subj),
                                      (''photoUrl'', photo)]))"
proof -
  have A: "fd_transformResponse raw = Inr out \<longrightarrow> rd out ''rawData'' = raw \<and> keeps_raw out raw"
    by (auto simp: fd_transformResponse_def keeps_raw_def split: if_splits)
  have B: "ac_transformResponse raw = Inr out \<longrightarrow>
        (\<exists>sd subj. out = JObj [(''studentDetails'', sd), (''subjectDetails'', subj)])"
    using ac_transformResponse_shape by blast
  have C: "acg_transformResponse raw type = Inr out \<longrightarrow>
        (\<exists>sd subj photo. out = JObj [(''studentDetails'', sd), (''subjectDetails'', subj),
                                      (''photoUrl'', photo)])"
    using acg_transformResponse_shape by blast
  from A B C show ?thesis by (intro conjI)
qed

theorem raw_payload_kept_by_form_data_only_witness:
  "(\<exists>out. fd_transformResponse form_raw_example = Inr out
      \<and> rd out ''rawData'' = form_raw_example
      \<and> rd (rd out ''rawData'') ''remarks'' = JStr ''fee paid'')
   \<and> (\<exists>out sd subj. ac_transformResponse admit_raw_example = Inr out
      \<and> out = JObj [(''studentDetails'', sd), (''subjectDetails'', subj)])
   \<and> (\<exists>out sd subj photo. acg_transformResponse form_raw_example THEORY = Inr out
      \<and> out = JObj [(''studentDetails'', sd), (''subjectDetails'', subj), (''photoUrl'', photo)])"
proof -
  obtain o1 where o1: "fd_transformResponse form_raw_example = Inr o1"
    by (simp add: fd_transformResponse_def form_raw_example_def)
  obtain o2 where o2: "ac_transformResponse admit_raw_example = Inr o2"
    by (cases "ac_transformResponse admit_raw_example")
       (simp_all add: ac_transformResponse_def admit_raw_example_def two_casings_def js_or_def)
  obtain o3 where o3: "acg_transformResponse form_raw_example THEORY = Inr o3"
    by (simp add: acg_transformResponse_def form_raw_example_def Let_def)
  from raw_payload_kept_by_form_data_only[where raw = form_raw_example and out = o1] o1
  have a: "rd o1 ''rawData'' = form_raw_example" by simp
  have b: "rd form_raw_example ''remarks'' = JStr ''fee paid''"
    by (simp add: form_raw_example_def)
  from raw_payload_kept_by_form_data_only[where raw = admit_raw_example and out = o2] o2
  have c: "\<exists>sd subj. o2 = JObj [(''studentDetails'', sd), (''subjectDetails'', subj)]" by simp
  from raw_payload_kept_by_form_data_only[where raw = form_raw_example and type = THEORY and out = o3] o3
  have d: "\<exists>sd subj photo. o3 = JObj [(''studentDetails'', sd), (''subjectDetails'', subj),
      (''photoUrl'', photo)]" by simp
  from o1 a b o2 c o3 d show ?thesis by auto
qed

text \<open>
  C9 as stated fails on both admit-card transformers: no field of the record
  holds the raw payload, and a payload with an unmapped field gives the same
  record as the payload without it.
\<close>

theorem admit_card_drops_raw_counterexample:
  "map_sum id (\<lambda>out. keeps_raw out admit_raw_example) (ac_transformResponse admit_raw_example)
     = Inr False
   \<and> ac_transformResponse admit_raw_example = ac_transformResponse admit_raw_stripped
   \<and> admit_raw_example \<noteq> admit_raw_stripped
   \<and> map_sum id (\<lambda>out. keeps_raw out form_raw_example)
        (acg_transformResponse form_raw_example THEORY) = Inr False
   \<and> acg_transformResponse form_raw_example THEORY = acg_transformResponse form_raw_stripped THEORY
   \<and> form_raw_example \<noteq> form_raw_stripped"
  by (simp add: ac_transformResponse_def acg_transformResponse_def admit_raw_example_def
      admit_raw_stripped_def form_raw_example_def form_raw_stripped_def two_casings_def
      js_or_def keeps_raw_def Let_def subjectKeys_def)

end
